theory Spec2Isabelle
  imports Main "HOL-Library.Char_ord" "HOL-Library.List_Lexorder"
begin

section \<open>JavaScript values used by scripts/get-release-version.js\<close>

text \<open>
  A JavaScript string is modelled by \<^typ>\<open>string\<close>: one \<^typ>\<open>char\<close> per code unit,
  for strings whose code units are below 256. The numbers of the script are integers,
  \<open>NaN\<close> and the infinities, held with the rounding of doubles.
\<close>

subsection \<open>Strings\<close>

definition isWhiteSpace :: "char \<Rightarrow> bool" where
  "isWhiteSpace c =
     (c = CHR 0x09 \<or> c = CHR 0x0A \<or> c = CHR 0x0B \<or> c = CHR 0x0C \<or> c = CHR 0x0D \<or>
      c = CHR 0x20 \<or> c = CHR 0xA0)"

definition isLineTerminator :: "char \<Rightarrow> bool" where
  "isLineTerminator c = (c = CHR 0x0A \<or> c = CHR 0x0D)"

definition isDigit :: "char \<Rightarrow> bool" where
  "isDigit c = (48 \<le> (of_char c :: nat) \<and> (of_char c :: nat) \<le> 57)"

text \<open>\<open>String.prototype.trim\<close>.\<close>

definition js_trim :: "string \<Rightarrow> string" where
  "js_trim s = rev (dropWhile isWhiteSpace (rev (dropWhile isWhiteSpace s)))"

text \<open>\<open>s.split(c)\<close> for a one-character separator: never empty, \<open>''''.split(c) = ['''']\<close>.\<close>

fun js_split :: "char \<Rightarrow> string \<Rightarrow> string list" where
  "js_split c [] = [[]]"
| "js_split c (x # xs) =
     (if x = c then [] # js_split c xs
      else (case js_split c xs of
              [] \<Rightarrow> [[x]]
            | y # ys \<Rightarrow> (x # y) # ys))"

text \<open>\<open>xs.join(sep)\<close>.\<close>

fun js_join :: "string \<Rightarrow> string list \<Rightarrow> string" where
  "js_join sep [] = []"
| "js_join sep [x] = x"
| "js_join sep (x # y # ys) = x @ sep @ js_join sep (y # ys)"

text \<open>\<open>xs[i]\<close>: \<open>undefined\<close> (\<open>None\<close>) out of range.\<close>

definition js_index :: "'a list \<Rightarrow> nat \<Rightarrow> 'a option" where
  "js_index xs i = (if i < length xs then Some (xs ! i) else None)"

text \<open>A string or \<open>undefined\<close> inside a template literal.\<close>

definition js_template :: "string option \<Rightarrow> string" where
  "js_template v = (case v of None \<Rightarrow> ''undefined'' | Some s \<Rightarrow> s)"

text \<open>\<open>s.startsWith(p)\<close>.\<close>

definition js_startsWith :: "string \<Rightarrow> string \<Rightarrow> bool" where
  "js_startsWith s p = (take (length p) s = p)"

text \<open>\<open>s.includes(p)\<close> on a string: \<open>p\<close> occurs in \<open>s\<close>.\<close>

fun js_string_includes :: "string \<Rightarrow> string \<Rightarrow> bool" where
  "js_string_includes [] p = (p = [])"
| "js_string_includes (c # cs) p = (js_startsWith (c # cs) p \<or> js_string_includes cs p)"

text \<open>\<open>s.replace(/^v/, '''')\<close>: one leading \<open>v\<close> is removed.\<close>

definition replace_leading_v :: "string \<Rightarrow> string" where
  "replace_leading_v s =
     (case s of [] \<Rightarrow> [] | c # cs \<Rightarrow> if c = CHR ''v'' then cs else s)"

text \<open>
  \<open>s.replace(/-preview.*/, '''')\<close> and \<open>s.replace(/-nightly.*/, '''')\<close>, with \<open>pat\<close> the
  literal part of the pattern: the first occurrence of \<open>pat\<close> is removed together
  with what follows it on its line (\<open>.\<close> does not match a line terminator).
\<close>

fun replace_to_eol :: "string \<Rightarrow> string \<Rightarrow> string" where
  "replace_to_eol pat [] = []"
| "replace_to_eol pat (c # cs) =
     (if js_startsWith (c # cs) pat
      then dropWhile (\<lambda>x. \<not> isLineTerminator x) (drop (length pat) (c # cs))
      else c # replace_to_eol pat cs)"

text \<open>\<open>s.replace(/-/g, '''')\<close>.\<close>

definition remove_dashes :: "string \<Rightarrow> string" where
  "remove_dashes s = filter (\<lambda>c. c \<noteq> CHR ''-'') s"

subsection \<open>Numbers\<close>

text \<open>
  A number is a double. The numbers of the script are integers, \<open>NaN\<close> or an infinity,
  and an integer double is held by its value. Every integer up to \<open>2^53\<close> in magnitude
  is a double; a larger integer is rounded to the nearest double, a tie going to the
  even mantissa, and a rounded magnitude of \<open>2^1024\<close> or more is an infinity.
\<close>

datatype js_number = NaN | Num int | Infinity | NegInfinity

text \<open>The number of binary digits of \<open>n\<close>.\<close>

fun bit_length :: "nat \<Rightarrow> nat" where
  "bit_length n = (if n = 0 then 0 else Suc (bit_length (n div 2)))"

declare bit_length.simps [simp del]

text \<open>
  The integer nearest to \<open>n\<close> with at most 53 significant binary digits: \<open>n\<close> is cut
  to its 53 leading digits \<open>q\<close> and a rest \<open>r\<close> of \<open>e\<close> digits, and \<open>q\<close> goes up when
  \<open>r\<close> is above the half, or at the half when \<open>q\<close> is odd.
\<close>

definition round_to_double :: "nat \<Rightarrow> nat" where
  "round_to_double n =
     (if n \<le> 2 ^ 53 then n
      else
        let e = bit_length n - 53;
            q = n div 2 ^ e;
            r = n mod 2 ^ e
        in (if 2 ^ e < 2 * r \<or> (2 * r = 2 ^ e \<and> odd q) then q + 1 else q) * 2 ^ e)"

text \<open>The number for a non-negative integer, as \<open>+s\<close> and \<open>parseInt\<close> give it.\<close>

definition to_number :: "nat \<Rightarrow> js_number" where
  "to_number n =
     (if round_to_double n < 2 ^ 1024 then Num (int (round_to_double n)) else Infinity)"

text \<open>\<open>- x\<close>\<close>

definition negate :: "js_number \<Rightarrow> js_number" where
  "negate x =
     (case x of
        NaN \<Rightarrow> NaN
      | Num i \<Rightarrow> Num (- i)
      | Infinity \<Rightarrow> NegInfinity
      | NegInfinity \<Rightarrow> Infinity)"

text \<open>The number for an integer of either sign.\<close>

definition int_to_number :: "int \<Rightarrow> js_number" where
  "int_to_number i = (if i < 0 then negate (to_number (nat (- i))) else to_number (nat i))"

text \<open>\<open>a < b\<close> on numbers.\<close>

definition number_less :: "js_number \<Rightarrow> js_number \<Rightarrow> bool" where
  "number_less a b =
     (case (a, b) of
        (Num i, Num j) \<Rightarrow> i < j
      | (Num i, Infinity) \<Rightarrow> True
      | (NegInfinity, Num j) \<Rightarrow> True
      | (NegInfinity, Infinity) \<Rightarrow> True
      | _ \<Rightarrow> False)"

definition digit_char :: "nat \<Rightarrow> char" where
  "digit_char d = char_of (48 + d)"

text \<open>Decimal digits of a natural number, most significant first.\<close>

fun decimal :: "nat \<Rightarrow> string" where
  "decimal n = (if n < 10 then [digit_char n] else decimal (n div 10) @ [digit_char (n mod 10)])"

declare decimal.simps [simp del]

text \<open>
  A number inside a template literal (\<open>Number.prototype.toString\<close>). An integer up to
  \<open>2^53\<close> in magnitude prints all its digits. Above that JavaScript prints the
  shortest digits that read back as the same double, padded with zeros, and an exponent
  from \<open>10^21\<close> on: that text is not computed here but taken as given, in \<open>large\<close>.
\<close>

definition number_toString :: "(int \<Rightarrow> string) \<Rightarrow> js_number \<Rightarrow> string" where
  "number_toString large x =
     (case x of
        NaN \<Rightarrow> ''NaN''
      | Infinity \<Rightarrow> ''Infinity''
      | NegInfinity \<Rightarrow> ''-Infinity''
      | Num i \<Rightarrow>
          if \<bar>i\<bar> \<le> 2 ^ 53
          then (if i < 0 then CHR ''-'' # decimal (nat (- i)) else decimal (nat i))
          else large i)"

text \<open>\<open>x + 1\<close>: the exact sum, rounded to a double.\<close>

definition plus_one :: "js_number \<Rightarrow> js_number" where
  "plus_one x =
     (case x of
        NaN \<Rightarrow> NaN
      | Infinity \<Rightarrow> Infinity
      | NegInfinity \<Rightarrow> NegInfinity
      | Num i \<Rightarrow> int_to_number (i + 1))"

text \<open>The value of a character as a digit in the given radix (10 or 16).\<close>

definition digit_value :: "nat \<Rightarrow> char \<Rightarrow> nat option" where
  "digit_value radix c =
     (let n = (of_char c :: nat);
          v = (if 48 \<le> n \<and> n \<le> 57 then Some (n - 48)
               else if 97 \<le> n \<and> n \<le> 122 then Some (n - 87)
               else if 65 \<le> n \<and> n \<le> 90 then Some (n - 55)
               else None)
      in case v of None \<Rightarrow> None | Some d \<Rightarrow> if d < radix then Some d else None)"

definition digits_value :: "nat \<Rightarrow> string \<Rightarrow> nat" where
  "digits_value radix ds =
     foldl (\<lambda>acc c. acc * radix + (case digit_value radix c of None \<Rightarrow> 0 | Some d \<Rightarrow> d)) 0 ds"

text \<open>
  \<open>parseInt(s)\<close> with no radix argument: leading white space and a sign are skipped, a
  \<open>0x\<close> prefix selects radix 16, the longest prefix of digits is read, and no digit at
  all gives \<open>NaN\<close>; the integer read is rounded to a double. (The language lets an
  implementation read a numeral of more than 20 significant digits less exactly; here
  every digit counts.)
\<close>

definition parseInt :: "string \<Rightarrow> js_number" where
  "parseInt s =
     (let s1 = dropWhile isWhiteSpace s;
          neg = (take 1 s1 = ''-'');
          s2 = (if take 1 s1 = ''-'' \<or> take 1 s1 = ''+'' then drop 1 s1 else s1);
          hex = (take 2 s2 = ''0x'' \<or> take 2 s2 = ''0X'');
          radix = (if hex then 16 else 10);
          s3 = (if hex then drop 2 s2 else s2);
          ds = takeWhile (\<lambda>c. digit_value radix c \<noteq> None) s3
      in if ds = [] then NaN
         else if neg then negate (to_number (digits_value radix ds))
         else to_number (digits_value radix ds))"

subsection \<open>Dates\<close>

text \<open>The UTC fields of a \<open>Date\<close>; \<open>month\<close> is 1 to 12 as \<open>toISOString\<close> prints it.\<close>

record js_date =
  year :: int
  month :: nat
  day :: nat
  hours :: nat
  minutes :: nat
  seconds :: nat
  milliseconds :: nat

text \<open>\<open>k\<close> digits of \<open>n\<close>, zero padded (the low \<open>k\<close> digits when \<open>n\<close> has more).\<close>

fun pad_digits :: "nat \<Rightarrow> nat \<Rightarrow> string" where
  "pad_digits 0 n = []"
| "pad_digits (Suc k) n = pad_digits k (n div 10) @ [digit_char (n mod 10)]"

text \<open>
  \<open>Date.prototype.toISOString\<close>: \<open>YYYY-MM-DDTHH:mm:ss.sssZ\<close>, and a sign with six year
  digits outside the years 0 to 9999.
\<close>

definition toISOString :: "js_date \<Rightarrow> string" where
  "toISOString d =
     (if 0 \<le> year d \<and> year d \<le> 9999 then pad_digits 4 (nat (year d))
      else (if year d < 0 then ''-'' else ''+'') @ pad_digits 6 (nat \<bar>year d\<bar>))
     @ ''-'' @ pad_digits 2 (month d) @ ''-'' @ pad_digits 2 (day d)
     @ ''T'' @ pad_digits 2 (hours d) @ '':'' @ pad_digits 2 (minutes d)
     @ '':'' @ pad_digits 2 (seconds d) @ ''.'' @ pad_digits 3 (milliseconds d) @ ''Z''"

subsection \<open>Parsed JSON\<close>

text \<open>
  What \<open>JSON.parse\<close> returns, as far as \<open>includes\<close> tells the values apart: a string,
  an array, or a value with no \<open>includes\<close> method (null, a boolean, a number, an object).
\<close>

datatype json = JString string | JArray "json list" | JOther

subsection \<open>Errors\<close>

datatype error = Error string | TypeError string | SyntaxError string

text \<open>\<open>error.message\<close>\<close>

fun message :: "error \<Rightarrow> string" where
  "message (Error m) = m"
| "message (TypeError m) = m"
| "message (SyntaxError m) = m"

text \<open>
  \<open>allVersions.includes(newVersion)\<close>: membership in an array, substring in a string, a
  \<open>TypeError\<close> on any other value.
\<close>

definition js_includes :: "json \<Rightarrow> string \<Rightarrow> error + bool" where
  "js_includes j v =
     (case j of
        JArray xs \<Rightarrow> Inr (JString v \<in> set xs)
      | JString s \<Rightarrow> Inr (js_string_includes s v)
      | JOther \<Rightarrow> Inl (TypeError ''allVersions.includes is not a function''))"

section \<open>The semver package\<close>

text \<open>
  The script imports the \<open>semver\<close> package, which is not part of the repository, and
  calls \<open>semver.valid\<close> and \<open>semver.rcompare\<close> in their default strict mode. Modelled
  from Semantic Versioning 2.0.0 as that package reads it: the string is trimmed, one
  leading \<open>v\<close> is allowed, \<open>major.minor.patch\<close> are numeric identifiers without leading
  zeros and at most \<open>MAX_SAFE_INTEGER\<close>, then an optional \<open>-prerelease\<close> and an
  optional \<open>+build\<close>; a string longer than 256 code units is invalid. A numeric
  prerelease identifier below \<open>MAX_SAFE_INTEGER\<close> is held as a number, any other
  identifier as a string, and numeric identifiers are compared as doubles.
\<close>

datatype prerelease_id = Numeric nat | Alphanumeric string

datatype SemVer = SemVer nat nat nat "prerelease_id list"

definition MAX_LENGTH :: nat where
  "MAX_LENGTH = 256"

definition MAX_SAFE_INTEGER :: nat where
  "MAX_SAFE_INTEGER = 9007199254740991"

definition isIdentChar :: "char \<Rightarrow> bool" where
  "isIdentChar c =
     (let n = (of_char c :: nat)
      in (48 \<le> n \<and> n \<le> 57) \<or> (65 \<le> n \<and> n \<le> 90) \<or> (97 \<le> n \<and> n \<le> 122) \<or> c = CHR ''-'')"

text \<open>\<open>0|[1-9]\d*\<close>\<close>

definition numericIdentifier :: "string \<Rightarrow> bool" where
  "numericIdentifier s = (s \<noteq> [] \<and> list_all isDigit s \<and> (s = ''0'' \<or> take 1 s \<noteq> ''0''))"

text \<open>A numeric identifier, or \<open>\d*[a-zA-Z-][a-zA-Z0-9-]*\<close>.\<close>

definition prereleaseIdentifier :: "string \<Rightarrow> bool" where
  "prereleaseIdentifier s =
     (numericIdentifier s \<or> (s \<noteq> [] \<and> list_all isIdentChar s \<and> \<not> list_all isDigit s))"

text \<open>\<open>[a-zA-Z0-9-]+\<close>\<close>

definition buildIdentifier :: "string \<Rightarrow> bool" where
  "buildIdentifier s = (s \<noteq> [] \<and> list_all isIdentChar s)"

text \<open>The part before the first \<open>c\<close>, and the part after it when there is one.\<close>

definition cut :: "char \<Rightarrow> string \<Rightarrow> string \<times> string option" where
  "cut c s =
     (takeWhile (\<lambda>x. x \<noteq> c) s,
      case dropWhile (\<lambda>x. x \<noteq> c) s of [] \<Rightarrow> None | _ # r \<Rightarrow> Some r)"

text \<open>\<open>/^[0-9]+$/\<close>\<close>

definition isNumeric :: "string \<Rightarrow> bool" where
  "isNumeric s = (s \<noteq> [] \<and> list_all isDigit s)"

text \<open>
  A prerelease identifier as the package holds it: \<open>num = +id\<close> when \<open>id\<close> is a run
  of digits and \<open>num < MAX_SAFE_INTEGER\<close>, and the string \<open>id\<close> otherwise. The double
  \<open>+id\<close> is below \<open>MAX_SAFE_INTEGER\<close> exactly when the value of the digits is, and
  is then that value.
\<close>

definition parse_identifier :: "string \<Rightarrow> prerelease_id" where
  "parse_identifier s =
     (if isNumeric s \<and> digits_value 10 s < MAX_SAFE_INTEGER
      then Numeric (digits_value 10 s)
      else Alphanumeric s)"

definition semver_parse :: "string \<Rightarrow> SemVer option" where
  "semver_parse version =
     (if length version > MAX_LENGTH then None
      else
        let s = replace_leading_v (js_trim version);
            main_pre = fst (cut (CHR ''+'') s);
            build = snd (cut (CHR ''+'') s);
            main = fst (cut (CHR ''-'') main_pre);
            pre = snd (cut (CHR ''-'') main_pre)
        in if (case build of None \<Rightarrow> True
               | Some b \<Rightarrow> list_all buildIdentifier (js_split (CHR ''.'') b)) \<and>
              (case pre of None \<Rightarrow> True
               | Some p \<Rightarrow> list_all prereleaseIdentifier (js_split (CHR ''.'') p))
           then (case js_split (CHR ''.'') main of
                   [a, b, c] \<Rightarrow>
                     if numericIdentifier a \<and> numericIdentifier b \<and> numericIdentifier c \<and>
                        digits_value 10 a \<le> MAX_SAFE_INTEGER \<and>
                        digits_value 10 b \<le> MAX_SAFE_INTEGER \<and>
                        digits_value 10 c \<le> MAX_SAFE_INTEGER
                     then Some (SemVer (digits_value 10 a) (digits_value 10 b) (digits_value 10 c)
                                  (case pre of None \<Rightarrow> []
                                   | Some p \<Rightarrow> map parse_identifier (js_split (CHR ''.'') p)))
                     else None
                 | _ \<Rightarrow> None)
           else None)"

text \<open>\<open>semver.valid(v)\<close> is truthy exactly when \<open>v\<close> parses.\<close>

definition semver_valid :: "string \<Rightarrow> bool" where
  "semver_valid v = (semver_parse v \<noteq> None)"

text \<open>
  \<open>major\<close>, \<open>minor\<close> and \<open>patch\<close> are numbers of at most \<open>MAX_SAFE_INTEGER\<close>, which
  doubles hold exactly.
\<close>

fun compareNumbers :: "nat \<Rightarrow> nat \<Rightarrow> int" where
  "compareNumbers a b = (if a = b then 0 else if a < b then - 1 else 1)"

text \<open>\<open>/^[0-9]+$/.test(a)\<close> on an identifier as the package holds it.\<close>

definition id_numeric :: "prerelease_id \<Rightarrow> bool" where
  "id_numeric a = (case a of Numeric n \<Rightarrow> True | Alphanumeric s \<Rightarrow> isNumeric s)"

text \<open>\<open>+a\<close> on an identifier that is numeric.\<close>

definition id_number :: "prerelease_id \<Rightarrow> js_number" where
  "id_number a =
     (case a of Numeric n \<Rightarrow> to_number n | Alphanumeric s \<Rightarrow> to_number (digits_value 10 s))"

text \<open>The text of an identifier.\<close>

definition id_string :: "prerelease_id \<Rightarrow> string" where
  "id_string a = (case a of Numeric n \<Rightarrow> decimal n | Alphanumeric s \<Rightarrow> s)"

text \<open>
  \<open>compareIdentifiers(a, b)\<close>: two numeric identifiers are compared as numbers, that
  is as doubles, so that two different identifiers from \<open>2^53\<close> on can compare equal; a
  numeric identifier is lower than one that is not; two that are not numeric compare
  as strings.
\<close>

definition compareIdentifiers :: "prerelease_id \<Rightarrow> prerelease_id \<Rightarrow> int" where
  "compareIdentifiers a b =
     (if id_numeric a \<and> id_numeric b
      then (if id_number a = id_number b then 0
            else if number_less (id_number a) (id_number b) then - 1 else 1)
      else if a = b then 0
      else if id_numeric a \<and> \<not> id_numeric b then - 1
      else if id_numeric b \<and> \<not> id_numeric a then 1
      else if id_string a < id_string b then - 1
      else 1)"

text \<open>
  The loop of \<open>comparePre\<close>: identifiers that are the same (\<open>a === b\<close>) are passed
  over, the first pair that differs decides.
\<close>

fun comparePreLoop :: "prerelease_id list \<Rightarrow> prerelease_id list \<Rightarrow> int" where
  "comparePreLoop [] [] = 0"
| "comparePreLoop (a # as) [] = 1"
| "comparePreLoop [] (b # bs) = - 1"
| "comparePreLoop (a # as) (b # bs) =
     (if a = b then comparePreLoop as bs else compareIdentifiers a b)"

text \<open>A version with a prerelease is lower than the same version without one.\<close>

definition comparePre :: "prerelease_id list \<Rightarrow> prerelease_id list \<Rightarrow> int" where
  "comparePre a b =
     (if a \<noteq> [] \<and> b = [] then - 1
      else if a = [] \<and> b \<noteq> [] then 1
      else if a = [] \<and> b = [] then 0
      else comparePreLoop a b)"

fun compareMain :: "SemVer \<Rightarrow> SemVer \<Rightarrow> int" where
  "compareMain (SemVer a1 a2 a3 ap) (SemVer b1 b2 b3 bp) =
     (if compareNumbers a1 b1 \<noteq> 0 then compareNumbers a1 b1
      else if compareNumbers a2 b2 \<noteq> 0 then compareNumbers a2 b2
      else compareNumbers a3 b3)"

fun compareSemVer :: "SemVer \<Rightarrow> SemVer \<Rightarrow> int" where
  "compareSemVer (SemVer a1 a2 a3 ap) (SemVer b1 b2 b3 bp) =
     (if compareMain (SemVer a1 a2 a3 ap) (SemVer b1 b2 b3 bp) \<noteq> 0
      then compareMain (SemVer a1 a2 a3 ap) (SemVer b1 b2 b3 bp)
      else comparePre ap bp)"

text \<open>
  \<open>semver.compare(a, b)\<close>. On a string that does not parse the package throws; the
  script compares only strings that passed \<open>semver.valid\<close>, and the model returns 0
  in the case that cannot arise.
\<close>

definition semver_compare :: "string \<Rightarrow> string \<Rightarrow> int" where
  "semver_compare a b =
     (case (semver_parse a, semver_parse b) of
        (Some x, Some y) \<Rightarrow> compareSemVer x y
      | _ \<Rightarrow> 0)"

text \<open>\<open>semver.rcompare(a, b) = semver.compare(b, a)\<close>.\<close>

definition semver_rcompare :: "string \<Rightarrow> string \<Rightarrow> int" where
  "semver_rcompare a b = semver_compare b a"

subsection \<open>Precedence as the specification has it\<close>

text \<open>
  The specification orders versions by standard semantic-version precedence: numeric
  \<open>major\<close>, \<open>minor\<close> and \<open>patch\<close>, then the prereleases, a version without prerelease
  above any prerelease of the same \<open>major.minor.patch\<close>, and prereleases of the same
  stage by their numeric suffix. In Semantic Versioning 2.0.0 prereleases compare
  identifier by identifier: a numeric identifier as a number, of any size, and below
  one that is not numeric, the others as strings, a longer list above its prefix. The
  definitions of this section are written from those words, to be compared with what
  the package computes.
\<close>

text \<open>An identifier read exactly: every run of digits is its number.\<close>

definition exact_id :: "prerelease_id \<Rightarrow> prerelease_id" where
  "exact_id a =
     (case a of
        Numeric n \<Rightarrow> Numeric n
      | Alphanumeric s \<Rightarrow> if isNumeric s then Numeric (digits_value 10 s) else Alphanumeric s)"

fun precedenceIdentifiers :: "prerelease_id \<Rightarrow> prerelease_id \<Rightarrow> int" where
  "precedenceIdentifiers (Numeric a) (Numeric b) = compareNumbers a b"
| "precedenceIdentifiers (Numeric a) (Alphanumeric b) = - 1"
| "precedenceIdentifiers (Alphanumeric a) (Numeric b) = 1"
| "precedenceIdentifiers (Alphanumeric a) (Alphanumeric b) =
     (if a = b then 0 else if a < b then - 1 else 1)"

fun precedencePreLoop :: "prerelease_id list \<Rightarrow> prerelease_id list \<Rightarrow> int" where
  "precedencePreLoop [] [] = 0"
| "precedencePreLoop (a # as) [] = 1"
| "precedencePreLoop [] (b # bs) = - 1"
| "precedencePreLoop (a # as) (b # bs) =
     (if a = b then precedencePreLoop as bs else precedenceIdentifiers a b)"

definition precedencePre :: "prerelease_id list \<Rightarrow> prerelease_id list \<Rightarrow> int" where
  "precedencePre a b =
     (if a \<noteq> [] \<and> b = [] then - 1
      else if a = [] \<and> b \<noteq> [] then 1
      else if a = [] \<and> b = [] then 0
      else precedencePreLoop a b)"

fun precedenceSemVer :: "SemVer \<Rightarrow> SemVer \<Rightarrow> int" where
  "precedenceSemVer (SemVer a1 a2 a3 ap) (SemVer b1 b2 b3 bp) =
     (if compareMain (SemVer a1 a2 a3 ap) (SemVer b1 b2 b3 bp) \<noteq> 0
      then compareMain (SemVer a1 a2 a3 ap) (SemVer b1 b2 b3 bp)
      else precedencePre (map exact_id ap) (map exact_id bp))"

text \<open>
  The precedence of two version strings: negative, zero or positive as the first is
  below, level with or above the second (zero when one of them is no version).
\<close>

definition semver_precedence :: "string \<Rightarrow> string \<Rightarrow> int" where
  "semver_precedence a b =
     (case (semver_parse a, semver_parse b) of
        (Some x, Some y) \<Rightarrow> precedenceSemVer x y
      | _ \<Rightarrow> 0)"

text \<open>
  An identifier on which the package and the specification agree: a number below
  \<open>MAX_SAFE_INTEGER\<close>, or a string that is not a run of digits. A version string is
  safe when every prerelease identifier it parses to is.
\<close>

definition safe_id :: "prerelease_id \<Rightarrow> bool" where
  "safe_id a = (case a of Numeric n \<Rightarrow> n < MAX_SAFE_INTEGER | Alphanumeric s \<Rightarrow> \<not> isNumeric s)"

definition safe_version :: "string \<Rightarrow> bool" where
  "safe_version v =
     (case semver_parse v of
        None \<Rightarrow> True
      | Some (SemVer a b c pre) \<Rightarrow> list_all safe_id pre)"

subsection \<open>Sorting with a comparator\<close>

text \<open>
  \<open>Array.prototype.sort(cmp)\<close> is a stable sort; for a consistent comparator its
  result is the one computed here by insertion, and so is the result for two elements
  when \<open>cmp a b\<close> and \<open>cmp b a\<close> have opposite signs, as they have for
  \<open>semver.rcompare\<close>. On versions with numeric prerelease identifiers from
  \<open>2^53\<close> on the comparator of the package can be inconsistent (\<open>a\<close> level with \<open>b\<close>
  and \<open>b\<close> with \<open>c\<close>, yet \<open>a\<close> above \<open>c\<close>); the order of three or more such versions
  then depends on the algorithm of the platform.
\<close>

fun insert_by :: "('a \<Rightarrow> 'a \<Rightarrow> int) \<Rightarrow> 'a \<Rightarrow> 'a list \<Rightarrow> 'a list" where
  "insert_by cmp x [] = [x]"
| "insert_by cmp x (y # ys) = (if cmp x y \<le> 0 then x # y # ys else y # insert_by cmp x ys)"

definition js_sort :: "('a \<Rightarrow> 'a \<Rightarrow> int) \<Rightarrow> 'a list \<Rightarrow> 'a list" where
  "js_sort cmp xs = foldr (insert_by cmp) xs []"

text \<open>A comparator is consistent on a set when it is total and transitive there.\<close>

definition total_on_set :: "('a \<Rightarrow> 'a \<Rightarrow> int) \<Rightarrow> 'a set \<Rightarrow> bool" where
  "total_on_set cmp S = (\<forall>a\<in>S. \<forall>b\<in>S. cmp a b \<le> 0 \<or> cmp b a \<le> 0)"

definition trans_on_set :: "('a \<Rightarrow> 'a \<Rightarrow> int) \<Rightarrow> 'a set \<Rightarrow> bool" where
  "trans_on_set cmp S =
     (\<forall>a\<in>S. \<forall>b\<in>S. \<forall>c\<in>S. cmp a b \<le> 0 \<longrightarrow> cmp b c \<le> 0 \<longrightarrow> cmp a c \<le> 0)"

section \<open>The environment of one run\<close>

text \<open>
  What the script reads from outside: the outcome of each command given to
  \<open>execSync\<close> (\<open>Inr\<close> the standard output, \<open>Inl\<close> the message of the error thrown
  when the command fails), what \<open>JSON.parse\<close> makes of a text (\<open>None\<close> when it throws),
  the clock, \<open>process.argv\<close>, and the text the platform prints for an integer above
  \<open>2^53\<close> in magnitude. The answers are a snapshot: the same command gets the same
  answer throughout a run.
\<close>

record world =
  run :: "string \<Rightarrow> string + string"
  JSON_parse :: "string \<Rightarrow> json option"
  now :: js_date
  argv :: "string list"
  number_text :: "int \<Rightarrow> string"

text \<open>
  A computation takes the commands issued so far and returns a value or the error
  thrown, with the commands issued by then.
\<close>

type_synonym trace = "string list"

type_synonym 'a io = "trace \<Rightarrow> (error + 'a) \<times> trace"

definition io_return :: "'a \<Rightarrow> 'a io" where
  "io_return x tr = (Inr x, tr)"

definition io_throw :: "error \<Rightarrow> 'a io" where
  "io_throw e tr = (Inl e, tr)"

definition io_bind :: "'a io \<Rightarrow> ('a \<Rightarrow> 'b io) \<Rightarrow> 'b io" where
  "io_bind m f tr = (case m tr of (Inl e, tr') \<Rightarrow> (Inl e, tr') | (Inr x, tr') \<Rightarrow> f x tr')"

text \<open>\<open>try { m } catch (e) { h e }\<close>\<close>

definition io_catch :: "'a io \<Rightarrow> (error \<Rightarrow> 'a io) \<Rightarrow> 'a io" where
  "io_catch m h tr = (case m tr of (Inl e, tr') \<Rightarrow> h e tr' | (Inr x, tr') \<Rightarrow> (Inr x, tr'))"

definition execSync :: "world \<Rightarrow> string \<Rightarrow> string io" where
  "execSync w command tr =
     (case run w command of Inl m \<Rightarrow> Inl (Error m) | Inr out \<Rightarrow> Inr out, tr @ [command])"

section \<open>scripts/get-release-version.js\<close>

subsection \<open>Arguments\<close>

text \<open>The value of an argument: \<open>true\<close> for a bare \<open>--key\<close>, else the text after \<open>=\<close>.\<close>

datatype argval = ATrue | AString string

type_synonym args = "string \<rightharpoonup> argval"

definition truthy :: "argval option \<Rightarrow> bool" where
  "truthy v = (case v of None \<Rightarrow> False | Some ATrue \<Rightarrow> True | Some (AString s) \<Rightarrow> s \<noteq> [])"

definition argval_toString :: "argval \<Rightarrow> string" where
  "argval_toString v = (case v of ATrue \<Rightarrow> ''true'' | AString s \<Rightarrow> s)"

definition getArgs :: "world \<Rightarrow> args" where
  "getArgs w =
     foldl (\<lambda>args arg.
              if js_startsWith arg ''--''
              then (case js_split (CHR ''='') (drop 2 arg) of
                      [] \<Rightarrow> args
                    | key # rest \<Rightarrow>
                        args(key \<mapsto> (case rest of [] \<Rightarrow> ATrue | v # _ \<Rightarrow> AString v)))
              else args)
       Map.empty (drop 2 (argv w))"

subsection \<open>Queries\<close>

text \<open>The command lines the script builds.\<close>

definition git_tag_l :: "string \<Rightarrow> string" where
  "git_tag_l pattern = ''git tag -l '' @ [CHR 0x27] @ pattern @ [CHR 0x27]"

definition npm_view_version :: "string \<Rightarrow> string" where
  "npm_view_version distTag = ''npm view @google/gemini-cli version --tag='' @ distTag"

definition npm_view_versions :: string where
  "npm_view_versions = ''npm view @google/gemini-cli versions --json''"

definition gh_release_view :: "string \<Rightarrow> string" where
  "gh_release_view tagName =
     ''gh release view '' @ [CHR 0x22] @ tagName @ [CHR 0x22] @ '' --json tagName --jq .tagName''"

definition git_rev_parse :: string where
  "git_rev_parse = ''git rev-parse --short HEAD''"

definition getLatestTag :: "world \<Rightarrow> string \<Rightarrow> string io" where
  "getLatestTag w pattern =
     io_catch
       (io_bind (execSync w (git_tag_l pattern)) (\<lambda>out.
          let tags = filter (\<lambda>t. t \<noteq> []) (js_split (CHR 0x0A) (js_trim out))
          in if length tags = 0 then io_return []
             else
               let versions =
                     js_sort semver_rcompare (filter semver_valid (map replace_leading_v tags))
               in (case versions of
                     [] \<Rightarrow> io_return []
                   | v # _ \<Rightarrow> io_return (CHR ''v'' # v))))
       (\<lambda>e. io_return [])"

definition getVersionFromNPM :: "world \<Rightarrow> string \<Rightarrow> string io" where
  "getVersionFromNPM w distTag =
     io_catch
       (io_bind (execSync w (npm_view_version distTag)) (\<lambda>out.
          io_return (js_trim out)))
       (\<lambda>e. io_return [])"

definition verifyGitHubReleaseExists :: "world \<Rightarrow> string \<Rightarrow> unit io" where
  "verifyGitHubReleaseExists w tagName =
     io_catch
       (io_bind (execSync w (gh_release_view tagName)) (\<lambda>out.
          let output = js_trim out
          in if output \<noteq> tagName
             then io_throw (Error (''Discrepancy found! NPM version '' @ tagName @
                                   '' is missing a corresponding GitHub release.''))
             else io_return ()))
       (\<lambda>error.
          io_throw (Error (''Discrepancy found! Failed to verify GitHub release for '' @ tagName @
                           ''. Error: '' @ message error)))"

subsection \<open>Conflicts\<close>

text \<open>
  The three \<open>try\<close> blocks of \<open>validateVersionConflicts\<close> are \<open>check_npm\<close>, \<open>check_git\<close>
  and \<open>check_github\<close>; each takes the \<open>conflicts\<close> array and returns it, extended
  when its source has the version.
\<close>

definition check_npm :: "world \<Rightarrow> string \<Rightarrow> string list \<Rightarrow> string list io" where
  "check_npm w newVersion conflicts =
     io_catch
       (io_bind (execSync w npm_view_versions) (\<lambda>out.
          let versionsJson = js_trim out
          in (case JSON_parse w versionsJson of
                None \<Rightarrow> io_throw (SyntaxError versionsJson)
              | Some allVersions \<Rightarrow>
                  (case js_includes allVersions newVersion of
                     Inl e \<Rightarrow> io_throw e
                   | Inr b \<Rightarrow>
                       io_return (if b then conflicts @ [''NPM registry already has version '' @ newVersion]
                                  else conflicts)))))
       (\<lambda>e. io_return conflicts)"

definition check_git :: "world \<Rightarrow> string \<Rightarrow> string list \<Rightarrow> string list io" where
  "check_git w newVersion conflicts =
     io_catch
       (io_bind (execSync w (git_tag_l (''v'' @ newVersion))) (\<lambda>out.
          let tagOutput = js_trim out
          in io_return (if tagOutput = ''v'' @ newVersion
                        then conflicts @ [''Git tag v'' @ newVersion @ '' already exists'']
                        else conflicts)))
       (\<lambda>e. io_return conflicts)"

definition check_github :: "world \<Rightarrow> string \<Rightarrow> string list \<Rightarrow> string list io" where
  "check_github w newVersion conflicts =
     io_catch
       (io_bind (execSync w (gh_release_view (''v'' @ newVersion))) (\<lambda>out.
          let output = js_trim out
          in io_return (if output = ''v'' @ newVersion
                        then conflicts @ [''GitHub release v'' @ newVersion @ '' already exists'']
                        else conflicts)))
       (\<lambda>e. io_return conflicts)"

definition validateVersionConflicts :: "world \<Rightarrow> string \<Rightarrow> unit io" where
  "validateVersionConflicts w newVersion =
     io_bind (check_npm w newVersion []) (\<lambda>conflicts1.
     io_bind (check_git w newVersion conflicts1) (\<lambda>conflicts2.
     io_bind (check_github w newVersion conflicts2) (\<lambda>conflicts.
       if length conflicts > 0
       then io_throw (Error (''Version conflict! Cannot create '' @ newVersion @ '':'' @
                             [CHR 0x0A] @ js_join [CHR 0x0A] conflicts))
       else io_return ())))"

subsection \<open>Validation of a channel\<close>

record verified =
  latestVersion :: string
  latestTag :: string

definition getAndVerifyTags :: "world \<Rightarrow> string \<Rightarrow> string \<Rightarrow> verified io" where
  "getAndVerifyTags w npmDistTag gitTagPattern =
     io_bind (getVersionFromNPM w npmDistTag) (\<lambda>version.
     io_bind (getLatestTag w gitTagPattern) (\<lambda>tag.
       if ''v'' @ version \<noteq> tag
       then io_throw (Error (''Discrepancy found! NPM '' @ npmDistTag @ '' tag ('' @ version @
                             '') does not match latest git '' @ npmDistTag @ '' tag ('' @ tag @ '').''))
       else io_bind (verifyGitHubReleaseExists w tag) (\<lambda>_.
              io_return \<lparr>latestVersion = version, latestTag = tag\<rparr>)))"

subsection \<open>The next version of each release type\<close>

record version_data =
  releaseVersion :: string
  npmTag :: string
  previousReleaseTag :: string

record release = version_data +
  releaseTag :: string

definition getNightlyVersion :: "world \<Rightarrow> version_data io" where
  "getNightlyVersion w =
     io_bind (getAndVerifyTags w ''nightly'' ''v*-nightly*'') (\<lambda>r.
       let baseVersion = js_template (js_index (js_split (CHR ''-'') (latestVersion r)) 0);
           versionParts = js_split (CHR ''.'') baseVersion;
           major = js_template (js_index versionParts 0);
           minor = (case js_index versionParts 1 of
                      None \<Rightarrow> Num 0
                    | Some p \<Rightarrow> if p = [] then Num 0 else parseInt p);
           nextMinor = plus_one minor;
           date = remove_dashes (take 10 (toISOString (now w)))
       in io_bind (execSync w git_rev_parse) (\<lambda>out.
            let gitShortHash = js_trim out
            in io_return
                 \<lparr>releaseVersion = major @ ''.'' @ number_toString (number_text w) nextMinor @ ''.0-nightly.'' @
                                     date @ ''.'' @ gitShortHash,
                  npmTag = ''nightly'',
                  previousReleaseTag = latestTag r\<rparr>))"

text \<open>\<open>/^\d+\.\d+\.\d+$/\<close>\<close>

definition matches_XYZ :: "string \<Rightarrow> bool" where
  "matches_XYZ s =
     (case js_split (CHR ''.'') s of
        [a, b, c] \<Rightarrow> a \<noteq> [] \<and> list_all isDigit a \<and> b \<noteq> [] \<and> list_all isDigit b \<and>
                     c \<noteq> [] \<and> list_all isDigit c
      | _ \<Rightarrow> False)"

text \<open>\<open>/^\d+\.\d+\.\d+-preview\.\d+$/\<close>\<close>

definition matches_XYZ_preview_N :: "string \<Rightarrow> bool" where
  "matches_XYZ_preview_N s =
     (case js_split (CHR ''.'') s of
        [a, b, c, d] \<Rightarrow>
           a \<noteq> [] \<and> list_all isDigit a \<and> b \<noteq> [] \<and> list_all isDigit b \<and>
           (case js_split (CHR ''-'') c of
              [c1, c2] \<Rightarrow> c1 \<noteq> [] \<and> list_all isDigit c1 \<and> c2 = ''preview''
            | _ \<Rightarrow> False) \<and>
           d \<noteq> [] \<and> list_all isDigit d
      | _ \<Rightarrow> False)"

text \<open>The table \<open>versionRegex\<close>: the test of a format, \<open>None\<close> for a format it does not hold.\<close>

definition versionRegex :: "string \<Rightarrow> (string \<Rightarrow> bool) option" where
  "versionRegex format =
     (if format = ''X.Y.Z'' then Some matches_XYZ
      else if format = ''X.Y.Z-preview.N'' then Some matches_XYZ_preview_N
      else None)"

definition validateVersion :: "string \<Rightarrow> string \<Rightarrow> string \<Rightarrow> unit io" where
  "validateVersion version format name =
     (if (case versionRegex format of None \<Rightarrow> True | Some test \<Rightarrow> \<not> test version)
      then io_throw (Error (''Invalid '' @ name @ '': '' @ version @ ''. Must be in '' @ format @
                            '' format.''))
      else io_return ())"

text \<open>
  \<open>args.x.replace(/^v/, ...)\<close> on a truthy argument: \<open>true\<close> has no \<open>replace\<close> method.
\<close>

definition override_replace_v :: "string \<Rightarrow> argval option \<Rightarrow> string io" where
  "override_replace_v name v =
     (case v of
        Some (AString s) \<Rightarrow> io_return (replace_leading_v s)
      | _ \<Rightarrow> io_throw (TypeError (''args.'' @ name @ ''.replace is not a function'')))"

definition getStableVersion :: "world \<Rightarrow> args \<Rightarrow> version_data io" where
  "getStableVersion w args =
     io_bind (getAndVerifyTags w ''preview'' ''v*-preview*'') (\<lambda>r.
       let latestPreviewVersion = latestVersion r
       in io_bind
            (if truthy (args ''stable_version_override'')
             then io_bind (override_replace_v ''stable_version_override''
                             (args ''stable_version_override'')) (\<lambda>overrideVersion.
                  io_bind (validateVersion overrideVersion ''X.Y.Z'' ''stable_version_override'') (\<lambda>_.
                    io_return overrideVersion))
             else io_return (replace_to_eol ''-preview'' latestPreviewVersion)) (\<lambda>version.
          io_bind (getAndVerifyTags w ''latest'' ''v[0-9].[0-9].[0-9]'') (\<lambda>r2.
            let previousStableTag = latestTag r2
            in io_return \<lparr>releaseVersion = version, npmTag = ''latest'',
                          previousReleaseTag = previousStableTag\<rparr>)))"

definition getPreviewVersion :: "world \<Rightarrow> args \<Rightarrow> version_data io" where
  "getPreviewVersion w args =
     io_bind (getAndVerifyTags w ''nightly'' ''v*-nightly*'') (\<lambda>r.
       let latestNightlyVersion = latestVersion r
       in io_bind
            (if truthy (args ''preview_version_override'')
             then io_bind (override_replace_v ''preview_version_override''
                             (args ''preview_version_override'')) (\<lambda>overrideVersion.
                  io_bind (validateVersion overrideVersion ''X.Y.Z-preview.N''
                             ''preview_version_override'') (\<lambda>_.
                    io_return overrideVersion))
             else io_return (replace_to_eol ''-nightly'' latestNightlyVersion @ ''-preview.0'')) (\<lambda>version.
          io_bind (getAndVerifyTags w ''preview'' ''v*-preview*'') (\<lambda>r2.
            let previousPreviewTag = latestTag r2
            in io_return \<lparr>releaseVersion = version, npmTag = ''preview'',
                          previousReleaseTag = previousPreviewTag\<rparr>)))"

text \<open>The two errors of the preview branch of \<open>getPatchVersion\<close>.\<close>

definition invalid_preview_format :: "string \<Rightarrow> error" where
  "invalid_preview_format version =
     Error (''Invalid preview version format: '' @ version @ ''. Expected format like '' @
            [CHR 0x22] @ ''0.6.0-preview.2'' @ [CHR 0x22])"

definition getPatchVersion :: "world \<Rightarrow> argval option \<Rightarrow> version_data io" where
  "getPatchVersion w patchFrom =
     (if \<not> truthy patchFrom \<or>
         (patchFrom \<noteq> Some (AString ''stable'') \<and> patchFrom \<noteq> Some (AString ''preview''))
      then io_throw (Error ''Patch type must be specified with --patch-from=stable or --patch-from=preview'')
      else
        let distTag = (if patchFrom = Some (AString ''stable'') then ''latest'' else ''preview'');
            pattern = (if distTag = ''latest'' then ''v[0-9].[0-9].[0-9]'' else ''v*-preview*'')
        in io_bind (getAndVerifyTags w distTag pattern) (\<lambda>r.
             if patchFrom = Some (AString ''stable'')
             then
               let versionParts = js_split (CHR ''.'') (latestVersion r);
                   major = js_template (js_index versionParts 0);
                   minor = js_template (js_index versionParts 1);
                   patch = (case js_index versionParts 2 of
                              None \<Rightarrow> Num 0
                            | Some p \<Rightarrow> if p = [] then Num 0 else parseInt p);
                   version = major @ ''.'' @ minor @ ''.'' @ number_toString (number_text w) (plus_one patch)
               in io_return \<lparr>releaseVersion = version, npmTag = distTag,
                             previousReleaseTag = latestTag r\<rparr>
             else
               let parts = js_split (CHR ''-'') (latestVersion r);
                   version = js_template (js_index parts 0);
                   prereleasePart = js_index parts 1
               in (case prereleasePart of
                     None \<Rightarrow> io_throw (invalid_preview_format (latestVersion r))
                   | Some pre \<Rightarrow>
                       if pre = [] \<or> \<not> js_startsWith pre ''preview.''
                       then io_throw (invalid_preview_format (latestVersion r))
                       else
                         let previewNumber =
                               (case js_index (js_split (CHR ''.'') pre) 1 of
                                  None \<Rightarrow> NaN
                                | Some p \<Rightarrow> parseInt p)
                         in if previewNumber = NaN
                            then io_throw (Error (''Could not parse preview number from: '' @ pre))
                            else io_return
                                   \<lparr>releaseVersion = version @ ''-preview.'' @
                                                       number_toString (number_text w)
                                                         (plus_one previewNumber),
                                    npmTag = distTag,
                                    previousReleaseTag = latestTag r\<rparr>)))"

subsection \<open>The entry point\<close>

text \<open>\<open>args.type || 'nightly'\<close>\<close>

definition release_type :: "args \<Rightarrow> argval" where
  "release_type args =
     (case args ''type'' of
        None \<Rightarrow> AString ''nightly''
      | Some ATrue \<Rightarrow> ATrue
      | Some (AString s) \<Rightarrow> if s = [] then AString ''nightly'' else AString s)"

definition getVersion :: "world \<Rightarrow> args \<Rightarrow> release io" where
  "getVersion w options =
     (let args = getArgs w ++ options;
          type = release_type args
      in io_bind
           (if type = AString ''nightly'' then getNightlyVersion w
            else if type = AString ''stable'' then getStableVersion w args
            else if type = AString ''preview'' then getPreviewVersion w args
            else if type = AString ''patch'' then getPatchVersion w (args ''patch-from'')
            else io_throw (Error (''Unknown release type: '' @ argval_toString type))) (\<lambda>versionData.
         io_bind (validateVersionConflicts w (releaseVersion versionData)) (\<lambda>_.
           io_return (version_data.extend versionData
                        \<lparr>releaseTag = ''v'' @ releaseVersion versionData\<rparr>))))"

section \<open>Example environments\<close>

text \<open>
  The answers of a repository whose three channels agree: nightly
  \<open>0.6.0-nightly.20250910.a31830a3\<close>, preview \<open>0.5.0-preview.2\<close> and stable \<open>0.4.1\<close>,
  on 2025-09-17 at commit \<open>d3bf8a3d\<close>. A command that is not listed fails. No number
  above \<open>2^53\<close> is printed in the examples, and the text of one is left empty.
\<close>

definition answers :: "(string \<times> string) list \<Rightarrow> string \<Rightarrow> string + string" where
  "answers table command =
     (case map_of table command of
        None \<Rightarrow> Inl (''Command failed: '' @ command)
      | Some out \<Rightarrow> Inr out)"

definition line :: "string \<Rightarrow> string" where
  "line s = s @ [CHR 0x0A]"

definition versions_json :: string where
  "versions_json =
     ''['' @ [CHR 0x22] @ ''0.4.0'' @ [CHR 0x22] @ '','' @ [CHR 0x22] @ ''0.4.1'' @ [CHR 0x22] @ '']''"

definition example_world :: world where
  "example_world =
     \<lparr>run = answers
        [(npm_view_version ''nightly'', line ''0.6.0-nightly.20250910.a31830a3''),
         (git_tag_l ''v*-nightly*'',
            line ''v0.6.0-nightly.20250910.a31830a3'' @ line ''v0.5.0-nightly.20250901.7c2b1a9f''),
         (gh_release_view ''v0.6.0-nightly.20250910.a31830a3'',
            line ''v0.6.0-nightly.20250910.a31830a3''),
         (npm_view_version ''preview'', line ''0.5.0-preview.2''),
         (git_tag_l ''v*-preview*'', line ''v0.5.0-preview.1'' @ line ''v0.5.0-preview.2''),
         (gh_release_view ''v0.5.0-preview.2'', line ''v0.5.0-preview.2''),
         (npm_view_version ''latest'', line ''0.4.1''),
         (git_tag_l ''v[0-9].[0-9].[0-9]'', line ''v0.4.0'' @ line ''v0.4.1''),
         (gh_release_view ''v0.4.1'', line ''v0.4.1''),
         (git_rev_parse, line ''d3bf8a3d''),
         (npm_view_versions, line versions_json)],
      JSON_parse = (\<lambda>text. if text = versions_json
                            then Some (JArray [JString ''0.4.0'', JString ''0.4.1''])
                            else None),
      now = \<lparr>year = 2025, month = 9, day = 17, hours = 3, minutes = 0, seconds = 0,
              milliseconds = 0\<rparr>,
      argv = [''node'', ''scripts/get-release-version.js''],
      number_text = (\<lambda>i. [])\<rparr>"

text \<open>The same repository with a tag \<open>v0.4.2\<close> that the registry does not know.\<close>

definition drifted_world :: world where
  "drifted_world =
     example_world
       \<lparr>run := (run example_world)
                 (git_tag_l ''v[0-9].[0-9].[0-9]'' := Inr (line ''v0.4.1'' @ line ''v0.4.2''))\<rparr>"

text \<open>
  The registry already lists \<open>0.4.2\<close>; the tag store and the release host cannot be
  asked about \<open>v0.4.2\<close>.
\<close>

definition reused_world :: world where
  "reused_world =
     example_world
       \<lparr>JSON_parse := (\<lambda>text. if text = versions_json
                                then Some (JArray [JString ''0.4.0'', JString ''0.4.1'', JString ''0.4.2''])
                                else None)\<rparr>"

text \<open>
  Tags reported in an order that is neither by precedence nor lexical, with a line that
  is no version; and the same tags reported in another order.
\<close>

definition unordered_world :: world where
  "unordered_world =
     example_world
       \<lparr>run := (run example_world)
                 (git_tag_l ''v[0-9]*'' :=
                    Inr (line ''v0.9.0'' @ line ''v0.10.0'' @ line ''vnext'' @ line ''v0.2.0''))\<rparr>"

definition reordered_world :: world where
  "reordered_world =
     example_world
       \<lparr>run := (run example_world)
                 (git_tag_l ''v[0-9]*'' :=
                    Inr (line ''v0.2.0'' @ line ''vnext'' @ line ''v0.10.0'' @ line ''v0.9.0''))\<rparr>"

text \<open>No tag is a version.\<close>

definition untagged_world :: world where
  "untagged_world =
     example_world
       \<lparr>run := (run example_world) (git_tag_l ''v[0-9]*'' := Inr (line ''vnext'' @ line ''v1.0''))\<rparr>"

text \<open>The preview channel at \<open>0.5.0-preview.2abc\<close> in all three sources.\<close>

definition odd_preview_world :: world where
  "odd_preview_world =
     example_world
       \<lparr>run := (run example_world)
                 (npm_view_version ''preview'' := Inr (line ''0.5.0-preview.2abc''),
                  git_tag_l ''v*-preview*'' := Inr (line ''v0.5.0-preview.2abc''),
                  gh_release_view ''v0.5.0-preview.2abc'' := Inr (line ''v0.5.0-preview.2abc''))\<rparr>"

text \<open>The preview channel drifted: the registry is at \<open>0.5.0-preview.2\<close>, the tags at \<open>.3\<close>.\<close>

definition preview_drifted_world :: world where
  "preview_drifted_world =
     example_world
       \<lparr>run := (run example_world)
                 (git_tag_l ''v*-preview*'' := Inr (line ''v0.5.0-preview.2'' @ line ''v0.5.0-preview.3''))\<rparr>"

text \<open>The release host has no release for the stable tag, or answers with another name.\<close>

definition unreleased_world :: world where
  "unreleased_world =
     example_world
       \<lparr>run := (run example_world) (gh_release_view ''v0.4.1'' := Inl ''release not found'')\<rparr>"

definition misnamed_world :: world where
  "misnamed_world =
     example_world
       \<lparr>run := (run example_world) (gh_release_view ''v0.4.1'' := Inr (line ''v0.4.0''))\<rparr>"

text \<open>The release host has no release for the preview tag.\<close>

definition preview_unreleased_world :: world where
  "preview_unreleased_world =
     example_world
       \<lparr>run := (run example_world) (gh_release_view ''v0.5.0-preview.2'' := Inl ''release not found'')\<rparr>"

text \<open>
  Two tags that differ in a numeric prerelease identifier only: \<open>2^53\<close> in the first
  reported, \<open>2^53 + 1\<close> in the second.
\<close>

definition big_id_world :: world where
  "big_id_world =
     example_world
       \<lparr>run := (run example_world)
                 (git_tag_l ''v1.0.0-*'' :=
                    Inr (line ''v1.0.0-9007199254740992'' @ line ''v1.0.0-9007199254740993''))\<rparr>"

section \<open>Properties of the string and number models\<close>

lemma js_split_not_Nil [simp]: "js_split c s \<noteq> []"
  by (induction s) (auto split: list.splits)

lemma js_split_no_sep: "c \<notin> set s \<Longrightarrow> js_split c s = [s]"
  by (induction s) auto

lemma js_split_append:
  "c \<notin> set a \<Longrightarrow> js_split c (a @ c # b) = a # js_split c b"
  by (induction a) auto

lemma isDigit_digit_char: "d < 10 \<Longrightarrow> isDigit (digit_char d)"
  by (simp add: isDigit_def digit_char_def)

lemma digit_value_digit_char: "d < 10 \<Longrightarrow> digit_value 10 (digit_char d) = Some d"
  by (simp add: digit_value_def digit_char_def)

lemma decimal_not_Nil [simp]: "decimal n \<noteq> []"
  by (subst decimal.simps) simp

lemma decimal_digits: "list_all isDigit (decimal n)"
proof (induction n rule: decimal.induct)
  case (1 n)
  show ?case
  proof (cases "n < 10")
    case True
    then show ?thesis by (subst decimal.simps) (simp add: isDigit_digit_char)
  next
    case False
    with 1 show ?thesis by (subst decimal.simps) (simp add: isDigit_digit_char)
  qed
qed

lemma digits_value_snoc:
  "digits_value r (ds @ [c]) = digits_value r ds * r + (case digit_value r c of None \<Rightarrow> 0 | Some d \<Rightarrow> d)"
  by (simp add: digits_value_def)

lemma digits_value_decimal: "digits_value 10 (decimal n) = n"
proof (induction n rule: decimal.induct)
  case (1 n)
  show ?case
  proof (cases "n < 10")
    case True
    then show ?thesis
      by (subst decimal.simps) (simp add: digits_value_def digit_value_digit_char)
  next
    case False
    with 1 show ?thesis
      by (subst decimal.simps) (simp add: digits_value_snoc digit_value_digit_char)
  qed
qed

lemma isDigit_not_special:
  "isDigit c \<Longrightarrow> c \<noteq> CHR ''.'' \<and> c \<noteq> CHR ''-'' \<and> c \<noteq> CHR ''+'' \<and> c \<noteq> CHR ''x'' \<and>
     c \<noteq> CHR ''X'' \<and> \<not> isWhiteSpace c \<and> \<not> isLineTerminator c \<and> digit_value 10 c \<noteq> None"
  by (auto simp: isDigit_def isWhiteSpace_def isLineTerminator_def digit_value_def Let_def)

lemma digits_no_char:
  "list_all isDigit s \<Longrightarrow> \<not> isDigit c \<Longrightarrow> c \<notin> set s"
  by (auto simp: list_all_iff)

lemma digits_no_dot: "list_all isDigit s \<Longrightarrow> CHR ''.'' \<notin> set s"
  by (rule digits_no_char) (simp_all add: isDigit_def)

lemma digits_no_dash: "list_all isDigit s \<Longrightarrow> CHR ''-'' \<notin> set s"
  by (rule digits_no_char) (simp_all add: isDigit_def)

text \<open>Integers up to \<open>2^53\<close> are doubles.\<close>

lemma round_to_double_exact: "n \<le> 2 ^ 53 \<Longrightarrow> round_to_double n = n"
  by (simp add: round_to_double_def)

lemma to_number_exact:
  assumes "n \<le> 2 ^ 53"
  shows "to_number n = Num (int n)"
proof -
  have "(2::nat) ^ 53 < 2 ^ 1024" by simp
  with assms have "n < 2 ^ 1024" by (rule order.strict_trans1)
  then show ?thesis using assms by (simp add: to_number_def round_to_double_exact)
qed

lemma to_number_safe: "n \<le> MAX_SAFE_INTEGER \<Longrightarrow> to_number n = Num (int n)"
  by (rule to_number_exact) (simp add: MAX_SAFE_INTEGER_def)

text \<open>Above \<open>2^53\<close> they are rounded: \<open>2^53 + 1\<close> is \<open>2^53\<close> again.\<close>

lemma bit_length_numeral:
  "bit_length 0 = 0"
  "bit_length 1 = 1"
  "bit_length (Suc 0) = 1"
  "bit_length (numeral k) = Suc (bit_length (numeral k div 2))"
  by (subst bit_length.simps, simp)+

lemma plus_one_rounds: "plus_one (Num 9007199254740992) = Num 9007199254740992"
  by (simp add: plus_one_def int_to_number_def to_number_def round_to_double_def
        bit_length_numeral)

lemma int_Suc_le_power: "Suc n \<le> 2 ^ 53 \<Longrightarrow> 1 + int n \<le> 2 ^ 53"
proof -
  assume "Suc n \<le> 2 ^ 53"
  then have "int (Suc n) \<le> int (2 ^ 53)" by (simp only: of_nat_le_iff)
  then show ?thesis by simp
qed

text \<open>\<open>parseInt\<close> of a string of decimal digits is the number it writes.\<close>

lemma parseInt_digits:
  assumes "s \<noteq> []" and "list_all isDigit s"
  shows "parseInt s = to_number (digits_value 10 s)"
proof -
  obtain c cs where s: "s = c # cs" using assms(1) by (cases s) auto
  have c: "isDigit c" using assms(2) s by simp
  have 1: "dropWhile isWhiteSpace s = s" using c s isDigit_not_special by simp
  have 2: "take 1 s \<noteq> ''-''" "take 1 s \<noteq> ''+''" using c s isDigit_not_special by auto
  have 3: "take 2 s \<noteq> ''0x''" "take 2 s \<noteq> ''0X''"
  proof -
    show "take 2 s \<noteq> ''0x''"
    proof
      assume "take 2 s = ''0x''"
      then have "CHR ''x'' \<in> set (take 2 s)" by simp
      then have "CHR ''x'' \<in> set s" by (rule in_set_takeD)
      then have "isDigit (CHR ''x'')" using assms(2) by (simp add: list_all_iff)
      then show False by (simp add: isDigit_def)
    qed
    show "take 2 s \<noteq> ''0X''"
    proof
      assume "take 2 s = ''0X''"
      then have "CHR ''X'' \<in> set (take 2 s)" by simp
      then have "CHR ''X'' \<in> set s" by (rule in_set_takeD)
      then have "isDigit (CHR ''X'')" using assms(2) by (simp add: list_all_iff)
      then show False by (simp add: isDigit_def)
    qed
  qed
  have 4: "takeWhile (\<lambda>c. digit_value 10 c \<noteq> None) s = s"
    using assms(2) isDigit_not_special by (auto simp: takeWhile_eq_all_conv list_all_iff)
  show ?thesis
    using assms(1) 2 3 by (simp add: parseInt_def Let_def 1 4 del: not_None_eq)
qed

lemma parseInt_decimal: "n \<le> MAX_SAFE_INTEGER \<Longrightarrow> parseInt (decimal n) = Num (int n)"
  by (simp add: parseInt_digits decimal_digits digits_value_decimal to_number_safe)

lemma number_toString_next:
  assumes "n \<le> MAX_SAFE_INTEGER"
  shows "number_toString large (plus_one (Num (int n))) = decimal (Suc n)"
proof -
  have 1: "Suc n \<le> 2 ^ 53" using assms by (simp add: MAX_SAFE_INTEGER_def)
  have 2: "nat (int n + 1) = Suc n" by simp
  have 3: "plus_one (Num (int n)) = Num (int (Suc n))"
    using to_number_exact [OF 1] by (simp add: plus_one_def int_to_number_def 2)
  have 4: "\<bar>int (Suc n)\<bar> \<le> 2 ^ 53" using 1 by (simp add: int_Suc_le_power)
  have 5: "nat (1 + int n) = Suc n" by simp
  show ?thesis unfolding 3 using 4 by (simp add: number_toString_def 5)
qed

lemma length_pad_digits [simp]: "length (pad_digits k n) = k"
  by (induction k arbitrary: n) auto

lemma pad_digits_digits: "list_all isDigit (pad_digits k n)"
  by (induction k arbitrary: n) (auto simp: isDigit_digit_char)

text \<open>The first ten characters of an ISO date in the years 0 to 9999, dashes removed.\<close>

lemma date_YYYYMMDD:
  assumes "0 \<le> year d" and "year d \<le> 9999"
  shows "remove_dashes (take 10 (toISOString d)) =
           pad_digits 4 (nat (year d)) @ pad_digits 2 (month d) @ pad_digits 2 (day d)"
proof -
  have nd: "filter (\<lambda>c. c \<noteq> CHR ''-'') (pad_digits k n) = pad_digits k n" for k n
    using digits_no_dash [OF pad_digits_digits, of k n] by (auto simp: filter_id_conv)
  have "take 10 (toISOString d) =
          pad_digits 4 (nat (year d)) @ ''-'' @ pad_digits 2 (month d) @ ''-'' @ pad_digits 2 (day d)"
    using assms by (simp add: toISOString_def)
  then show ?thesis by (simp add: remove_dashes_def nd)
qed

lemma replace_to_eol_at:
  "CHR ''-'' \<notin> set base \<Longrightarrow>
     replace_to_eol (CHR ''-'' # p) (base @ CHR ''-'' # p @ rest) =
       base @ dropWhile (\<lambda>x. \<not> isLineTerminator x) rest"
  by (induction base) (auto simp: js_startsWith_def)

lemma replace_to_eol_suffix:
  "CHR ''-'' \<notin> set base \<Longrightarrow> list_all (\<lambda>x. \<not> isLineTerminator x) rest \<Longrightarrow>
     replace_to_eol (CHR ''-'' # p) (base @ CHR ''-'' # p @ rest) = base"
  by (simp add: replace_to_eol_at list_all_iff dropWhile_eq_Nil_conv)

lemma decimal_small: "n < 10 \<Longrightarrow> decimal n = [digit_char n]"
  by (subst decimal.simps) simp

lemma digit_chars:
  "digit_char 0 = CHR ''0''" "digit_char 1 = CHR ''1''" "digit_char (Suc 0) = CHR ''1''"
  "digit_char 2 = CHR ''2''" "digit_char 3 = CHR ''3''" "digit_char 4 = CHR ''4''"
  "digit_char 5 = CHR ''5''" "digit_char 6 = CHR ''6''" "digit_char 7 = CHR ''7''"
  "digit_char 8 = CHR ''8''" "digit_char 9 = CHR ''9''"
  by (simp_all add: digit_char_def char_of_def bit_iff_odd_drop_bit)

lemma pad_digits_numeral:
  "pad_digits (numeral k) n = pad_digits (pred_numeral k) (n div 10) @ [digit_char (n mod 10)]"
proof -
  have "numeral k = Suc (pred_numeral k)" by (rule numeral_eq_Suc)
  then show ?thesis by (simp only: pad_digits.simps)
qed

section \<open>Properties of the semver model\<close>

subsection \<open>The precedence of the specification is a total preorder\<close>

lemma compareNumbers_le: "compareNumbers a b \<le> 0 \<longleftrightarrow> a \<le> b"
  by simp

lemma compareNumbers_eq: "compareNumbers a b = 0 \<longleftrightarrow> a = b"
  by simp

lemma precedenceIdentifiers_le:
  "precedenceIdentifiers a b \<le> 0 \<longleftrightarrow>
     (case (a, b) of
        (Numeric x, Numeric y) \<Rightarrow> x \<le> y
      | (Numeric x, Alphanumeric y) \<Rightarrow> True
      | (Alphanumeric x, Numeric y) \<Rightarrow> False
      | (Alphanumeric x, Alphanumeric y) \<Rightarrow> x \<le> y)"
  by (cases a; cases b) (auto simp: compareNumbers.simps)

declare precedenceIdentifiers.simps [simp del]

lemma precedenceIdentifiers_total:
  "precedenceIdentifiers a b \<le> 0 \<or> precedenceIdentifiers b a \<le> 0"
  by (cases a; cases b) (auto simp: precedenceIdentifiers_le)

lemma precedenceIdentifiers_trans:
  "precedenceIdentifiers a b \<le> 0 \<Longrightarrow> precedenceIdentifiers b c \<le> 0 \<Longrightarrow> precedenceIdentifiers a c \<le> 0"
  by (cases a; cases b; cases c) (auto simp: precedenceIdentifiers_le)

lemma precedenceIdentifiers_antisym:
  "precedenceIdentifiers a b \<le> 0 \<Longrightarrow> precedenceIdentifiers b a \<le> 0 \<Longrightarrow> a = b"
  by (cases a; cases b) (auto simp: precedenceIdentifiers_le)

lemma precedenceIdentifiers_refl: "precedenceIdentifiers a a \<le> 0"
  by (cases a) (auto simp: precedenceIdentifiers_le)

text \<open>The loop over two prerelease lists is the lexicographic order.\<close>

lemma precedencePreLoop_le:
  "precedencePreLoop as bs \<le> 0 \<longleftrightarrow>
     (case (as, bs) of
        ([], _) \<Rightarrow> True
      | (a # as', []) \<Rightarrow> False
      | (a # as', b # bs') \<Rightarrow> if a = b then precedencePreLoop as' bs' \<le> 0 else precedenceIdentifiers a b \<le> 0)"
  by (cases as; cases bs) auto

lemma precedencePreLoop_refl [simp]: "precedencePreLoop as as \<le> 0"
  by (induction as) auto

lemma precedencePreLoop_total: "precedencePreLoop as bs \<le> 0 \<or> precedencePreLoop bs as \<le> 0"
proof (induction as bs rule: precedencePreLoop.induct)
  case (4 a as b bs)
  then show ?case using precedenceIdentifiers_total [of a b] by auto
qed auto

lemma precedencePreLoop_trans:
  "precedencePreLoop as bs \<le> 0 \<Longrightarrow> precedencePreLoop bs cs \<le> 0 \<Longrightarrow> precedencePreLoop as cs \<le> 0"
proof (induction as bs arbitrary: cs rule: precedencePreLoop.induct)
  case (4 a as b bs)
  show ?case
  proof (cases cs)
    case Nil
    with 4 show ?thesis by simp
  next
    case (Cons c cs')
    show ?thesis
    proof (cases "a = b")
      case True
      with 4 Cons show ?thesis by (auto split: if_splits)
    next
      case ab: False
      show ?thesis
      proof (cases "b = c")
        case True
        with 4 Cons ab show ?thesis by auto
      next
        case bc: False
        from 4 ab have 1: "precedenceIdentifiers a b \<le> 0" by simp
        from 4 bc Cons have 2: "precedenceIdentifiers b c \<le> 0" by simp
        have 3: "precedenceIdentifiers a c \<le> 0" using 1 2 by (rule precedenceIdentifiers_trans)
        have "a \<noteq> c" using 1 2 ab precedenceIdentifiers_antisym by blast
        with 3 Cons show ?thesis by simp
      qed
    qed
  qed
next
  case (3 b bs)
  then show ?case by (cases cs) auto
qed auto

lemma precedencePre_le:
  "precedencePre a b \<le> 0 \<longleftrightarrow> (if b = [] then True else if a = [] then False else precedencePreLoop a b \<le> 0)"
  by (cases a; cases b) (auto simp: precedencePre_def)

lemma precedencePre_total: "precedencePre a b \<le> 0 \<or> precedencePre b a \<le> 0"
  using precedencePreLoop_total [of a b] by (auto simp: precedencePre_le)

lemma precedencePre_trans:
  "precedencePre a b \<le> 0 \<Longrightarrow> precedencePre b c \<le> 0 \<Longrightarrow> precedencePre a c \<le> 0"
  using precedencePreLoop_trans [of a b c] by (auto simp: precedencePre_le split: if_splits)

lemma precedenceSemVer_le:
  "precedenceSemVer (SemVer a1 a2 a3 ap) (SemVer b1 b2 b3 bp) \<le> 0 \<longleftrightarrow>
     (a1 < b1 \<or> (a1 = b1 \<and> (a2 < b2 \<or> (a2 = b2 \<and> (a3 < b3 \<or>
        (a3 = b3 \<and> precedencePre (map exact_id ap) (map exact_id bp) \<le> 0))))))"
  by (simp add: compareNumbers.simps)

declare precedenceSemVer.simps [simp del]

lemma precedenceSemVer_total: "precedenceSemVer x y \<le> 0 \<or> precedenceSemVer y x \<le> 0"
proof -
  obtain a1 a2 a3 ap where x: "x = SemVer a1 a2 a3 ap" by (cases x)
  obtain b1 b2 b3 bp where y: "y = SemVer b1 b2 b3 bp" by (cases y)
  have 1: "a1 < b1 \<or> b1 < a1 \<or> a1 = b1" by linarith
  have 2: "a2 < b2 \<or> b2 < a2 \<or> a2 = b2" by linarith
  have 3: "a3 < b3 \<or> b3 < a3 \<or> a3 = b3" by linarith
  have 4: "precedencePre (map exact_id ap) (map exact_id bp) \<le> 0 \<or>
           precedencePre (map exact_id bp) (map exact_id ap) \<le> 0"
    by (rule precedencePre_total)
  have "precedenceSemVer (SemVer a1 a2 a3 ap) (SemVer b1 b2 b3 bp) \<le> 0 \<or>
        precedenceSemVer (SemVer b1 b2 b3 bp) (SemVer a1 a2 a3 ap) \<le> 0"
    unfolding precedenceSemVer_le using 1 2 3 4
    by (elim disjE) simp_all
  then show ?thesis by (simp only: x y)
qed

lemma precedenceSemVer_trans:
  assumes "precedenceSemVer x y \<le> 0" and "precedenceSemVer y z \<le> 0"
  shows "precedenceSemVer x z \<le> 0"
proof -
  obtain a1 a2 a3 ap where x: "x = SemVer a1 a2 a3 ap" by (cases x)
  obtain b1 b2 b3 bp where y: "y = SemVer b1 b2 b3 bp" by (cases y)
  obtain c1 c2 c3 cp where z: "z = SemVer c1 c2 c3 cp" by (cases z)
  have xy: "precedenceSemVer (SemVer a1 a2 a3 ap) (SemVer b1 b2 b3 bp) \<le> 0"
    using assms(1) by (simp only: x y)
  have yz: "precedenceSemVer (SemVer b1 b2 b3 bp) (SemVer c1 c2 c3 cp) \<le> 0"
    using assms(2) by (simp only: y z)
  have "precedenceSemVer (SemVer a1 a2 a3 ap) (SemVer c1 c2 c3 cp) \<le> 0"
    using xy yz precedencePre_trans [of "map exact_id ap" "map exact_id bp" "map exact_id cp"]
    unfolding precedenceSemVer_le by auto
  then show ?thesis by (simp only: x z)
qed

lemma semver_precedence_total:
  "semver_precedence a b \<le> 0 \<or> semver_precedence b a \<le> 0"
proof (cases "semver_parse a")
  case None
  then show ?thesis by (simp add: semver_precedence_def)
next
  case a: (Some x)
  show ?thesis
  proof (cases "semver_parse b")
    case None
    then show ?thesis by (simp add: semver_precedence_def split: option.splits)
  next
    case (Some y)
    with a show ?thesis using precedenceSemVer_total [of x y] by (simp add: semver_precedence_def)
  qed
qed

lemma semver_precedence_trans:
  assumes "semver_valid b" and "semver_precedence a b \<le> 0" and "semver_precedence b c \<le> 0"
  shows "semver_precedence a c \<le> 0"
proof -
  obtain y where b: "semver_parse b = Some y" using assms(1) by (auto simp: semver_valid_def)
  show ?thesis
  proof (cases "semver_parse a")
    case None
    then show ?thesis by (simp add: semver_precedence_def)
  next
    case a: (Some x)
    show ?thesis
    proof (cases "semver_parse c")
      case None
      then show ?thesis by (simp add: semver_precedence_def split: option.splits)
    next
      case (Some z)
      with a b assms show ?thesis using precedenceSemVer_trans [of x y z] by (simp add: semver_precedence_def)
    qed
  qed
qed

subsection \<open>Where the package computes the precedence\<close>

text \<open>
  On identifiers that are numbers below \<open>MAX_SAFE_INTEGER\<close> or strings that are no run
  of digits, \<open>compareIdentifiers\<close> is the precedence of the specification.
\<close>

lemma exact_id_safe: "safe_id a \<Longrightarrow> exact_id a = a"
  by (cases a) (simp_all add: exact_id_def safe_id_def)

lemma map_exact_id_safe: "list_all safe_id as \<Longrightarrow> map exact_id as = as"
  by (induction as) (simp_all add: exact_id_safe)

lemma id_number_safe: "n < MAX_SAFE_INTEGER \<Longrightarrow> id_number (Numeric n) = Num (int n)"
  by (simp add: id_number_def to_number_safe)

lemma compareIdentifiers_safe:
  assumes "safe_id a" and "safe_id b"
  shows "compareIdentifiers a b = precedenceIdentifiers a b"
proof (cases a)
  case a: (Numeric m)
  then have m: "m < MAX_SAFE_INTEGER" using assms(1) by (simp add: safe_id_def)
  show ?thesis
  proof (cases b)
    case (Numeric n)
    then have n: "n < MAX_SAFE_INTEGER" using assms(2) by (simp add: safe_id_def)
    show ?thesis
      unfolding a Numeric
      by (simp add: compareIdentifiers_def id_numeric_def id_number_safe [OF m] id_number_safe [OF n]
            number_less_def precedenceIdentifiers.simps)
  next
    case (Alphanumeric t)
    then have "\<not> isNumeric t" using assms(2) by (simp add: safe_id_def)
    then show ?thesis
      unfolding a Alphanumeric
      by (simp add: compareIdentifiers_def id_numeric_def precedenceIdentifiers.simps)
  qed
next
  case a: (Alphanumeric s)
  then have s: "\<not> isNumeric s" using assms(1) by (simp add: safe_id_def)
  show ?thesis
  proof (cases b)
    case (Numeric n)
    show ?thesis
      unfolding a Numeric using s
      by (simp add: compareIdentifiers_def id_numeric_def precedenceIdentifiers.simps)
  next
    case (Alphanumeric t)
    then have "\<not> isNumeric t" using assms(2) by (simp add: safe_id_def)
    then show ?thesis
      unfolding a Alphanumeric using s
      by (simp add: compareIdentifiers_def id_numeric_def id_string_def precedenceIdentifiers.simps)
  qed
qed

lemma comparePreLoop_safe:
  "list_all safe_id as \<Longrightarrow> list_all safe_id bs \<Longrightarrow>
     comparePreLoop as bs = precedencePreLoop as bs"
  by (induction as bs rule: comparePreLoop.induct) (simp_all add: compareIdentifiers_safe)

lemma comparePre_safe:
  "list_all safe_id as \<Longrightarrow> list_all safe_id bs \<Longrightarrow> comparePre as bs = precedencePre as bs"
  by (simp add: comparePre_def precedencePre_def comparePreLoop_safe)

lemma compareSemVer_safe:
  assumes "list_all safe_id ap" and "list_all safe_id bp"
  shows "compareSemVer (SemVer a1 a2 a3 ap) (SemVer b1 b2 b3 bp) =
           precedenceSemVer (SemVer a1 a2 a3 ap) (SemVer b1 b2 b3 bp)"
  using assms
  by (simp add: compareSemVer.simps precedenceSemVer.simps comparePre_safe map_exact_id_safe
        del: compareMain.simps)

lemma semver_compare_safe:
  assumes "safe_version a" and "safe_version b"
  shows "semver_compare a b = semver_precedence a b"
proof (cases "semver_parse a")
  case None
  then show ?thesis by (simp add: semver_compare_def semver_precedence_def)
next
  case a: (Some x)
  show ?thesis
  proof (cases "semver_parse b")
    case None
    then show ?thesis by (simp add: semver_compare_def semver_precedence_def split: option.splits)
  next
    case b: (Some y)
    obtain a1 a2 a3 ap where x: "x = SemVer a1 a2 a3 ap" by (cases x)
    obtain b1 b2 b3 bp where y: "y = SemVer b1 b2 b3 bp" by (cases y)
    have "list_all safe_id ap" using assms(1) a x by (simp add: safe_version_def)
    moreover have "list_all safe_id bp" using assms(2) b y by (simp add: safe_version_def)
    ultimately have "compareSemVer x y = precedenceSemVer x y"
      unfolding x y by (rule compareSemVer_safe)
    then show ?thesis using a b by (simp add: semver_compare_def semver_precedence_def)
  qed
qed

text \<open>
  A version is safe exactly when none of its prerelease identifiers is a run of digits
  worth \<open>MAX_SAFE_INTEGER\<close> or more.
\<close>

lemma safe_id_parse_identifier:
  "safe_id (parse_identifier s) \<longleftrightarrow> \<not> (isNumeric s \<and> MAX_SAFE_INTEGER \<le> digits_value 10 s)"
  by (auto simp: parse_identifier_def safe_id_def)

subsection \<open>Sorting\<close>

lemma set_insert_by [simp]: "set (insert_by cmp x ys) = insert x (set ys)"
  by (induction ys) auto

lemma set_js_sort [simp]: "set (js_sort cmp xs) = set xs"
  by (induction xs) (auto simp: js_sort_def)

lemma js_sort_Cons: "js_sort cmp (x # xs) = insert_by cmp x (js_sort cmp xs)"
  by (simp add: js_sort_def)

lemma js_sort_Nil [simp]: "js_sort cmp [] = []"
  by (simp add: js_sort_def)

lemma total_on_set_mono: "total_on_set cmp S \<Longrightarrow> T \<subseteq> S \<Longrightarrow> total_on_set cmp T"
  unfolding total_on_set_def by blast

lemma trans_on_set_mono: "trans_on_set cmp S \<Longrightarrow> T \<subseteq> S \<Longrightarrow> trans_on_set cmp T"
  unfolding trans_on_set_def by blast

lemma js_sort_eq_Nil [simp]: "js_sort cmp xs = [] \<longleftrightarrow> xs = []"
proof
  assume "js_sort cmp xs = []"
  then have "set (js_sort cmp xs) = {}" by simp
  then show "xs = []" by simp
qed simp

lemma hd_insert_by:
  assumes total: "total_on_set cmp (insert x (set ys))"
    and trans: "trans_on_set cmp (insert x (set ys))"
    and ys: "ys \<noteq> [] \<longrightarrow> (\<forall>u\<in>set ys. cmp (hd ys) u \<le> 0)"
  shows "\<forall>u\<in>insert x (set ys). cmp (hd (insert_by cmp x ys)) u \<le> 0"
proof (cases ys)
  case Nil
  then show ?thesis using total by (simp add: total_on_set_def)
next
  case (Cons y ys')
  have xx: "cmp x x \<le> 0" using total by (simp add: total_on_set_def)
  have hy: "\<forall>u\<in>set ys. cmp y u \<le> 0" using ys Cons by simp
  show ?thesis
  proof (cases "cmp x y \<le> 0")
    case True
    have "cmp x u \<le> 0" if u: "u \<in> set ys" for u
    proof -
      have "cmp y u \<le> 0" using hy u by simp
      moreover have "y \<in> insert x (set ys)" "u \<in> insert x (set ys)" "x \<in> insert x (set ys)"
        using Cons u by simp_all
      ultimately show ?thesis using trans True unfolding trans_on_set_def by blast
    qed
    then show ?thesis using True Cons xx by simp
  next
    case False
    have "y \<in> insert x (set ys)" "x \<in> insert x (set ys)" using Cons by simp_all
    then have "cmp y x \<le> 0" using total False unfolding total_on_set_def by blast
    then show ?thesis using False Cons hy by simp
  qed
qed

lemma hd_js_sort:
  "total_on_set cmp (set xs) \<Longrightarrow> trans_on_set cmp (set xs) \<Longrightarrow> xs \<noteq> [] \<Longrightarrow>
     \<forall>u\<in>set xs. cmp (hd (js_sort cmp xs)) u \<le> 0"
proof (induction xs)
  case Nil
  then show ?case by simp
next
  case (Cons x xs)
  let ?ys = "js_sort cmp xs"
  have tot: "total_on_set cmp (set xs)"
    using Cons.prems(1) by (rule total_on_set_mono) auto
  have tr: "trans_on_set cmp (set xs)"
    using Cons.prems(2) by (rule trans_on_set_mono) auto
  have ih: "?ys \<noteq> [] \<longrightarrow> (\<forall>u\<in>set ?ys. cmp (hd ?ys) u \<le> 0)"
    using Cons.IH [OF tot tr] by simp
  have "\<forall>u\<in>insert x (set ?ys). cmp (hd (insert_by cmp x ?ys)) u \<le> 0"
  proof (rule hd_insert_by)
    show "total_on_set cmp (insert x (set ?ys))" using Cons.prems(1) by simp
    show "trans_on_set cmp (insert x (set ?ys))" using Cons.prems(2) by simp
    show "?ys \<noteq> [] \<longrightarrow> (\<forall>u\<in>set ?ys. cmp (hd ?ys) u \<le> 0)" by (rule ih)
  qed
  then show ?case by (simp add: js_sort_Cons)
qed

lemma semver_rcompare_total:
  "list_all safe_version ts \<Longrightarrow> total_on_set semver_rcompare (set ts)"
  unfolding total_on_set_def semver_rcompare_def
proof (intro ballI)
  fix a b
  assume ts: "list_all safe_version ts" and "a \<in> set ts" and "b \<in> set ts"
  then have "safe_version a" "safe_version b" by (simp_all add: list_all_iff)
  then have "semver_compare b a = semver_precedence b a" "semver_compare a b = semver_precedence a b"
    by (simp_all add: semver_compare_safe)
  then show "semver_compare b a \<le> 0 \<or> semver_compare a b \<le> 0"
    using semver_precedence_total [of b a] by simp
qed

lemma semver_rcompare_trans:
  "list_all safe_version (filter semver_valid ts) \<Longrightarrow>
     trans_on_set semver_rcompare (set (filter semver_valid ts))"
  unfolding trans_on_set_def semver_rcompare_def
proof (intro ballI impI)
  fix a b c
  assume ts: "list_all safe_version (filter semver_valid ts)"
    and a: "a \<in> set (filter semver_valid ts)" and b: "b \<in> set (filter semver_valid ts)"
    and c: "c \<in> set (filter semver_valid ts)"
    and 1: "semver_compare b a \<le> 0" and 2: "semver_compare c b \<le> 0"
  have s: "safe_version a" "safe_version b" "safe_version c"
    using ts a b c by (simp_all add: list_all_iff)
  have v: "semver_valid b" using b by simp
  have "semver_precedence c b \<le> 0" using 2 s by (simp add: semver_compare_safe)
  moreover have "semver_precedence b a \<le> 0" using 1 s by (simp add: semver_compare_safe)
  ultimately have "semver_precedence c a \<le> 0" using v by (rule semver_precedence_trans [rotated])
  then show "semver_compare c a \<le> 0" using s by (simp add: semver_compare_safe)
qed

text \<open>
  The first of the valid versions sorted by \<open>semver.rcompare\<close> is one that no other
  exceeds in precedence, when all of them are safe.
\<close>

lemma js_sort_semver_first:
  assumes "js_sort semver_rcompare (filter semver_valid ts) = v # rest"
    and "list_all safe_version (filter semver_valid ts)"
  shows "v \<in> set (filter semver_valid ts) \<and>
         (\<forall>u\<in>set (filter semver_valid ts). semver_precedence u v \<le> 0)"
proof -
  let ?xs = "filter semver_valid ts"
  have ne: "?xs \<noteq> []" using assms(1) by auto
  have "v \<in> set (js_sort semver_rcompare ?xs)" using assms(1) by simp
  then have mem: "v \<in> set ?xs" by (simp only: set_js_sort)
  have sv: "safe_version v" using mem assms(2) by (simp add: list_all_iff)
  have "\<forall>u\<in>set ?xs. semver_rcompare (hd (js_sort semver_rcompare ?xs)) u \<le> 0"
    using semver_rcompare_total [OF assms(2)] semver_rcompare_trans [OF assms(2)] ne
    by (rule hd_js_sort)
  then have 1: "\<forall>u\<in>set ?xs. semver_compare u v \<le> 0"
    using assms(1) by (simp add: semver_rcompare_def)
  have "semver_precedence u v \<le> 0" if u: "u \<in> set ?xs" for u
  proof -
    have "safe_version u" using u assms(2) by (simp add: list_all_iff)
    then have "semver_compare u v = semver_precedence u v" using sv by (rule semver_compare_safe)
    moreover have "semver_compare u v \<le> 0" using 1 u by blast
    ultimately show ?thesis by simp
  qed
  with mem show ?thesis by blast
qed

section \<open>The queries and the validation of a channel\<close>

lemmas io_defs = io_return_def io_throw_def io_bind_def io_catch_def execSync_def

lemma getVersionFromNPM_returns:
  "getVersionFromNPM w distTag tr =
     (Inr (case run w (npm_view_version distTag) of Inl m \<Rightarrow> [] | Inr out \<Rightarrow> js_trim out),
      tr @ [npm_view_version distTag])"
  by (simp add: getVersionFromNPM_def io_defs split: sum.splits)

lemma getLatestTag_returns:
  "\<exists>tag. getLatestTag w pattern tr = (Inr tag, tr @ [git_tag_l pattern])"
  by (auto simp add: getLatestTag_def io_defs Let_def split: sum.splits list.splits)

lemma verifyGitHubReleaseExists_eq:
  "verifyGitHubReleaseExists w tagName tr =
     (case run w (gh_release_view tagName) of
        Inl m \<Rightarrow>
          Inl (Error (''Discrepancy found! Failed to verify GitHub release for '' @ tagName @
                      ''. Error: '' @ m))
      | Inr out \<Rightarrow>
          if js_trim out = tagName then Inr ()
          else Inl (Error (''Discrepancy found! Failed to verify GitHub release for '' @ tagName @
                           ''. Error: '' @ ''Discrepancy found! NPM version '' @ tagName @
                           '' is missing a corresponding GitHub release.'')),
      tr @ [gh_release_view tagName])"
  by (simp add: verifyGitHubReleaseExists_def io_defs Let_def split: sum.splits)

lemma getAndVerifyTags_eq:
  assumes "getVersionFromNPM w channel tr = (Inr version, tr1)"
    and "getLatestTag w pattern tr1 = (Inr tag, tr2)"
  shows "getAndVerifyTags w channel pattern tr =
     (if ''v'' @ version \<noteq> tag
      then (Inl (Error (''Discrepancy found! NPM '' @ channel @ '' tag ('' @ version @
                        '') does not match latest git '' @ channel @ '' tag ('' @ tag @ '').'')), tr2)
      else (case verifyGitHubReleaseExists w tag tr2 of
              (Inl e, tr3) \<Rightarrow> (Inl e, tr3)
            | (Inr u, tr3) \<Rightarrow> (Inr \<lparr>latestVersion = version, latestTag = tag\<rparr>, tr3)))"
  using assms by (simp add: getAndVerifyTags_def io_bind_def io_throw_def io_return_def split: prod.splits sum.splits)

text \<open>A channel that validates is at a valid version, and its tag is that version after \<open>v\<close>.\<close>

lemma getLatestTag_valid:
  assumes "getLatestTag w pattern tr = (Inr tag, tr1)"
  shows "tag = [] \<or> (\<exists>v. tag = CHR ''v'' # v \<and> semver_valid v)"
proof (cases "run w (git_tag_l pattern)")
  case (Inl m)
  then show ?thesis using assms by (simp add: getLatestTag_def io_defs)
next
  case (Inr out)
  let ?tags = "filter (\<lambda>t. t \<noteq> []) (js_split (CHR 0x0A) (js_trim out))"
  let ?versions = "js_sort semver_rcompare (filter semver_valid (map replace_leading_v ?tags))"
  show ?thesis
  proof (cases ?versions)
    case Nil
    then show ?thesis
      using assms Inr by (auto simp add: getLatestTag_def io_defs Let_def split: if_splits)
  next
    case (Cons v rest)
    then have "v \<in> set ?versions" by simp
    then have "v \<in> set (filter semver_valid (map replace_leading_v ?tags))"
      by (simp only: set_js_sort)
    then have v: "semver_valid v" by simp
    have "?tags \<noteq> []" using Cons by auto
    then have "tag = CHR ''v'' # v"
      using assms Inr Cons by (simp add: getLatestTag_def io_defs Let_def)
    with v show ?thesis by blast
  qed
qed

lemma getAndVerifyTags_valid:
  assumes "getAndVerifyTags w channel pattern tr = (Inr r, tr1)"
  shows "semver_valid (latestVersion r) \<and> latestTag r = CHR ''v'' # latestVersion r"
proof -
  obtain version tr' where n: "getVersionFromNPM w channel tr = (Inr version, tr')"
    using getVersionFromNPM_returns by blast
  obtain tag where t: "getLatestTag w pattern tr' = (Inr tag, tr' @ [git_tag_l pattern])"
    using getLatestTag_returns by blast
  have eq: "''v'' @ version = tag \<and> latestVersion r = version \<and> latestTag r = tag"
    using assms unfolding getAndVerifyTags_eq [OF n t]
    by (auto split: if_splits prod.splits sum.splits)
  then have "tag \<noteq> []" by auto
  then obtain v where "tag = CHR ''v'' # v" "semver_valid v"
    using getLatestTag_valid [OF t] by blast
  with eq show ?thesis by auto
qed

section \<open>The example environments, evaluated\<close>

lemmas command_defs = git_tag_l_def npm_view_version_def npm_view_versions_def gh_release_view_def
  git_rev_parse_def

lemmas semver_defs = semver_valid_def semver_rcompare_def semver_compare_def semver_parse_def
  MAX_LENGTH_def MAX_SAFE_INTEGER_def js_trim_def isWhiteSpace_def replace_leading_v_def cut_def
  buildIdentifier_def prereleaseIdentifier_def numericIdentifier_def isDigit_def isIdentChar_def
  digits_value_def digit_value_def isNumeric_def parse_identifier_def comparePre_def
  compareSemVer.simps compareIdentifiers_def id_numeric_def id_number_def id_string_def
  number_less_def to_number_def round_to_double_def compareNumbers.simps

lemmas precedence_defs = semver_precedence_def precedenceSemVer.simps precedencePre_def
  precedenceIdentifiers.simps exact_id_def safe_version_def safe_id_def

lemmas world_defs = example_world_def answers_def line_def versions_json_def

lemmas query_defs = getVersionFromNPM_def getLatestTag_def verifyGitHubReleaseExists_def
  getAndVerifyTags_def io_defs js_sort_def Let_def

lemma example_nightly:
  "getAndVerifyTags example_world ''nightly'' ''v*-nightly*'' tr =
     (Inr \<lparr>latestVersion = ''0.6.0-nightly.20250910.a31830a3'',
            latestTag = ''v0.6.0-nightly.20250910.a31830a3''\<rparr>,
      tr @ [npm_view_version ''nightly'', git_tag_l ''v*-nightly*'',
            gh_release_view ''v0.6.0-nightly.20250910.a31830a3''])"
  by (simp add: query_defs world_defs command_defs semver_defs)

lemma example_preview:
  "getAndVerifyTags example_world ''preview'' ''v*-preview*'' tr =
     (Inr \<lparr>latestVersion = ''0.5.0-preview.2'', latestTag = ''v0.5.0-preview.2''\<rparr>,
      tr @ [npm_view_version ''preview'', git_tag_l ''v*-preview*'',
            gh_release_view ''v0.5.0-preview.2''])"
  by (simp add: query_defs world_defs command_defs semver_defs)

lemma example_latest:
  "getAndVerifyTags example_world ''latest'' ''v[0-9].[0-9].[0-9]'' tr =
     (Inr \<lparr>latestVersion = ''0.4.1'', latestTag = ''v0.4.1''\<rparr>,
      tr @ [npm_view_version ''latest'', git_tag_l ''v[0-9].[0-9].[0-9]'',
            gh_release_view ''v0.4.1''])"
  by (simp add: query_defs world_defs command_defs semver_defs)

lemma example_latest_npm:
  "getVersionFromNPM (example_world\<lparr>run := (run example_world)(c := a)\<rparr>) ''latest'' tr =
     (if c = npm_view_version ''latest''
      then (Inr (case a of Inl m \<Rightarrow> [] | Inr out \<Rightarrow> js_trim out), tr @ [npm_view_version ''latest''])
      else (Inr ''0.4.1'', tr @ [npm_view_version ''latest'']))"
  by (simp add: getVersionFromNPM_returns world_defs command_defs js_trim_def isWhiteSpace_def)

lemma example_latest_tag:
  "getLatestTag (example_world\<lparr>run := (run example_world)(gh_release_view t := a)\<rparr>)
       ''v[0-9].[0-9].[0-9]'' tr =
     (Inr ''v0.4.1'', tr @ [git_tag_l ''v[0-9].[0-9].[0-9]''])"
  by (simp add: query_defs world_defs command_defs semver_defs)

section \<open>The version calculators\<close>

lemma js_index_simps [simp]:
  "js_index (x # xs) 0 = Some x"
  "js_index (x # y # xs) (Suc 0) = Some y"
  "js_index (x # y # z # xs) 2 = Some z"
  "js_index [x] (Suc 0) = None"
  by (simp_all add: js_index_def)

lemma js_template_Some [simp]: "js_template (Some s) = s"
  by (simp add: js_template_def)

lemma js_split_dash:
  "CHR ''-'' \<notin> set base \<Longrightarrow>
     js_split (CHR ''-'') (base @ ''-'' @ rest) = base # js_split (CHR ''-'') rest"
  using js_split_append [of "CHR ''-''" base rest] by simp

lemma js_split_version:
  "js_split (CHR ''.'') (decimal a @ CHR ''.'' # decimal b @ CHR ''.'' # decimal c) =
     [decimal a, decimal b, decimal c]"
proof -
  have "js_split (CHR ''.'') (decimal a @ CHR ''.'' # (decimal b @ CHR ''.'' # decimal c)) =
          decimal a # js_split (CHR ''.'') (decimal b @ CHR ''.'' # decimal c)"
    by (rule js_split_append) (rule digits_no_dot [OF decimal_digits])
  also have "js_split (CHR ''.'') (decimal b @ CHR ''.'' # decimal c) =
               decimal b # js_split (CHR ''.'') (decimal c)"
    by (rule js_split_append) (rule digits_no_dot [OF decimal_digits])
  also have "js_split (CHR ''.'') (decimal c) = [decimal c]"
    by (rule js_split_no_sep) (rule digits_no_dot [OF decimal_digits])
  finally show ?thesis by simp
qed

lemma version_no_dash:
  "CHR ''-'' \<notin> set (decimal a @ ''.'' @ decimal b @ ''.'' @ decimal c)"
  using digits_no_dash [OF decimal_digits] by simp

text \<open>
  A valid version that begins with three numbers in decimal, followed by nothing or by a
  prerelease, has those three numbers at most \<open>MAX_SAFE_INTEGER\<close>.
\<close>

lemma js_trim_append:
  assumes "base \<noteq> []" and "\<not> isWhiteSpace (hd base)" and "\<not> isWhiteSpace (last base)"
  shows "js_trim (base @ rest) = base @ rev (dropWhile isWhiteSpace (rev rest))"
proof -
  obtain x xs where b: "base = x # xs" using assms(1) by (cases base) auto
  have 1: "dropWhile isWhiteSpace (base @ rest) = base @ rest" using assms(2) b by simp
  obtain ys y where e: "base = ys @ [y]" using assms(1) by (cases base rule: rev_cases) auto
  have 2: "dropWhile isWhiteSpace (rev base) = rev base" using assms(3) by (simp add: e)
  have "dropWhile isWhiteSpace (rev rest @ rev base) = dropWhile isWhiteSpace (rev rest) @ rev base"
    using 2 by (simp add: dropWhile_append)
  then show ?thesis by (simp add: js_trim_def 1)
qed

lemma semver_main_part:
  assumes "base \<noteq> []" and "list_all (\<lambda>c. isDigit c \<or> c = CHR ''.'') base"
    and "isDigit (hd base)" and "isDigit (last base)"
    and "rest = [] \<or> hd rest = CHR ''-''"
  shows "fst (cut (CHR ''-'') (fst (cut (CHR ''+'') (replace_leading_v (js_trim (base @ rest)))))) =
           base"
proof -
  have nb: "c \<in> set base \<Longrightarrow> c \<noteq> CHR ''+'' \<and> c \<noteq> CHR ''-''" for c
    using assms(2) isDigit_not_special [of c] by (auto simp: list_all_iff)
  have v: "hd base \<noteq> CHR ''v''" using assms(3) by (auto simp: isDigit_def)
  have ws: "\<not> isWhiteSpace (hd base)" "\<not> isWhiteSpace (last base)"
    using assms(3,4) isDigit_not_special by blast+
  show ?thesis
  proof (cases rest)
    case Nil
    have t: "js_trim (base @ rest) = base" using js_trim_append [OF assms(1) ws, of "[]"] Nil by simp
    have r: "replace_leading_v base = base"
      using assms(1) v by (cases base) (simp_all add: replace_leading_v_def)
    have tw: "takeWhile (\<lambda>x. x \<noteq> CHR ''+'') base = base"
      "takeWhile (\<lambda>x. x \<noteq> CHR ''-'') base = base"
      using nb by (simp_all add: takeWhile_eq_all_conv)
    show ?thesis by (simp add: t r cut_def tw)
  next
    case (Cons d pre)
    then have d: "d = CHR ''-''" using assms(5) by simp
    let ?b = "base @ ''-''"
    have "js_trim (?b @ pre) = ?b @ rev (dropWhile isWhiteSpace (rev pre))"
      by (rule js_trim_append) (use assms(1) ws in \<open>simp_all add: isWhiteSpace_def\<close>)
    then obtain pre' where t: "js_trim (base @ rest) = base @ CHR ''-'' # pre'"
      using Cons d by simp
    have r: "replace_leading_v (base @ CHR ''-'' # pre') = base @ CHR ''-'' # pre'"
      using assms(1) v by (cases base) (simp_all add: replace_leading_v_def)
    have 1: "takeWhile (\<lambda>x. x \<noteq> CHR ''+'') (base @ CHR ''-'' # pre') =
               base @ CHR ''-'' # takeWhile (\<lambda>x. x \<noteq> CHR ''+'') pre'"
      using nb by (simp add: takeWhile_append2)
    have 2: "takeWhile (\<lambda>x. x \<noteq> CHR ''-'') (base @ CHR ''-'' # p) = base" for p
      using nb by (simp add: takeWhile_append2)
    show ?thesis by (simp add: t r cut_def 1 2)
  qed
qed

lemma semver_valid_numbers:
  assumes "semver_valid (decimal a @ ''.'' @ decimal b @ ''.'' @ decimal c @ rest)"
    and "rest = [] \<or> hd rest = CHR ''-''"
  shows "a \<le> MAX_SAFE_INTEGER \<and> b \<le> MAX_SAFE_INTEGER \<and> c \<le> MAX_SAFE_INTEGER"
proof -
  let ?base = "decimal a @ CHR ''.'' # decimal b @ CHR ''.'' # decimal c"
  have da: "list_all (\<lambda>c. isDigit c \<or> c = CHR ''.'') (decimal n)" for n
    using decimal_digits [of n] by (simp add: list_all_iff)
  have 1: "list_all (\<lambda>c. isDigit c \<or> c = CHR ''.'') ?base" by (simp add: da)
  have h: "isDigit (hd (decimal n))" "isDigit (last (decimal n))" for n
    using decimal_digits [of n] decimal_not_Nil [of n] by (simp_all add: list_all_iff)
  have 2: "isDigit (hd ?base)" "isDigit (last ?base)" by (simp_all add: h)
  have main: "fst (cut (CHR ''-'') (fst (cut (CHR ''+'') (replace_leading_v (js_trim (?base @ rest)))))) =
                ?base"
    by (rule semver_main_part [OF _ 1 2 assms(2)]) simp
  have "semver_parse (?base @ rest) \<noteq> None" using assms(1) by (simp add: semver_valid_def)
  then show ?thesis
    unfolding semver_parse_def Let_def main js_split_version
    by (simp add: digits_value_decimal split: if_splits)
qed

lemma getNightlyVersion_eq:
  assumes "getAndVerifyTags w ''nightly'' ''v*-nightly*'' tr = (Inr r, tr1)"
    and "latestVersion r =
           decimal major @ ''.'' @ decimal minor @ ''.'' @ decimal patch @ ''-'' @ prerelease"
    and "run w git_rev_parse = Inr out"
  shows "getNightlyVersion w tr =
           (Inr \<lparr>releaseVersion = decimal major @ ''.'' @ decimal (Suc minor) @ ''.0-nightly.'' @
                                    remove_dashes (take 10 (toISOString (now w))) @ ''.'' @ js_trim out,
                  npmTag = ''nightly'',
                  previousReleaseTag = latestTag r\<rparr>,
            tr1 @ [git_rev_parse])"
proof -
  let ?base = "decimal major @ ''.'' @ decimal minor @ ''.'' @ decimal patch"
  have "semver_valid (decimal major @ ''.'' @ decimal minor @ ''.'' @ decimal patch @
                        (''-'' @ prerelease))"
    using getAndVerifyTags_valid [OF assms(1)] assms(2) by simp
  then have m: "minor \<le> MAX_SAFE_INTEGER"
    using semver_valid_numbers [of major minor patch "''-'' @ prerelease"] by simp
  have 1: "js_split (CHR ''-'') (latestVersion r) = ?base # js_split (CHR ''-'') prerelease"
    using js_split_dash [OF version_no_dash, of major minor patch prerelease] assms(2) by simp
  have 2: "js_split (CHR ''.'') ?base = [decimal major, decimal minor, decimal patch]"
    using js_split_version [of major minor patch] by simp
  show ?thesis
    using assms(1,3) 2
    by (simp add: getNightlyVersion_def io_defs Let_def 1 parseInt_decimal [OF m]
          number_toString_next [OF m])
qed

lemma getStableVersion_no_override:
  assumes "\<not> truthy (args ''stable_version_override'')"
    and "getAndVerifyTags w ''preview'' ''v*-preview*'' tr = (Inr r1, tr1)"
  shows "getStableVersion w args tr =
           (case getAndVerifyTags w ''latest'' ''v[0-9].[0-9].[0-9]'' tr1 of
              (Inl e, tr2) \<Rightarrow> (Inl e, tr2)
            | (Inr r2, tr2) \<Rightarrow>
                (Inr \<lparr>releaseVersion = replace_to_eol ''-preview'' (latestVersion r1),
                       npmTag = ''latest'', previousReleaseTag = latestTag r2\<rparr>, tr2))"
  using assms
  by (simp add: getStableVersion_def io_bind_def io_return_def Let_def split: prod.splits sum.splits)

lemma getStableVersion_override:
  assumes "args ''stable_version_override'' = Some (AString s)" and "s \<noteq> []"
    and "getAndVerifyTags w ''preview'' ''v*-preview*'' tr = (Inr r1, tr1)"
  shows "getStableVersion w args tr =
           (if \<not> matches_XYZ (replace_leading_v s)
            then (Inl (Error (''Invalid stable_version_override: '' @ replace_leading_v s @
                              ''. Must be in X.Y.Z format.'')), tr1)
            else (case getAndVerifyTags w ''latest'' ''v[0-9].[0-9].[0-9]'' tr1 of
                    (Inl e, tr2) \<Rightarrow> (Inl e, tr2)
                  | (Inr r2, tr2) \<Rightarrow>
                      (Inr \<lparr>releaseVersion = replace_leading_v s, npmTag = ''latest'',
                             previousReleaseTag = latestTag r2\<rparr>, tr2)))"
  using assms
  by (simp add: getStableVersion_def io_bind_def io_return_def io_throw_def Let_def truthy_def
        override_replace_v_def validateVersion_def versionRegex_def split: prod.splits sum.splits)

lemma getPreviewVersion_no_override:
  assumes "\<not> truthy (args ''preview_version_override'')"
    and "getAndVerifyTags w ''nightly'' ''v*-nightly*'' tr = (Inr r1, tr1)"
  shows "getPreviewVersion w args tr =
           (case getAndVerifyTags w ''preview'' ''v*-preview*'' tr1 of
              (Inl e, tr2) \<Rightarrow> (Inl e, tr2)
            | (Inr r2, tr2) \<Rightarrow>
                (Inr \<lparr>releaseVersion = replace_to_eol ''-nightly'' (latestVersion r1) @ ''-preview.0'',
                       npmTag = ''preview'', previousReleaseTag = latestTag r2\<rparr>, tr2))"
  using assms
  by (simp add: getPreviewVersion_def io_bind_def io_return_def Let_def split: prod.splits sum.splits)

lemma getPreviewVersion_override:
  assumes "args ''preview_version_override'' = Some (AString s)" and "s \<noteq> []"
    and "getAndVerifyTags w ''nightly'' ''v*-nightly*'' tr = (Inr r1, tr1)"
  shows "getPreviewVersion w args tr =
           (if \<not> matches_XYZ_preview_N (replace_leading_v s)
            then (Inl (Error (''Invalid preview_version_override: '' @ replace_leading_v s @
                              ''. Must be in X.Y.Z-preview.N format.'')), tr1)
            else (case getAndVerifyTags w ''preview'' ''v*-preview*'' tr1 of
                    (Inl e, tr2) \<Rightarrow> (Inl e, tr2)
                  | (Inr r2, tr2) \<Rightarrow>
                      (Inr \<lparr>releaseVersion = replace_leading_v s, npmTag = ''preview'',
                             previousReleaseTag = latestTag r2\<rparr>, tr2)))"
  using assms
  by (simp add: getPreviewVersion_def io_bind_def io_return_def io_throw_def Let_def truthy_def
        override_replace_v_def validateVersion_def versionRegex_def split: prod.splits sum.splits)

lemma getPatchVersion_stable:
  assumes "getAndVerifyTags w ''latest'' ''v[0-9].[0-9].[0-9]'' tr = (Inr r, tr1)"
    and "latestVersion r = decimal major @ ''.'' @ decimal minor @ ''.'' @ decimal patch"
  shows "getPatchVersion w (Some (AString ''stable'')) tr =
           (Inr \<lparr>releaseVersion = decimal major @ ''.'' @ decimal minor @ ''.'' @ decimal (Suc patch),
                  npmTag = ''latest'', previousReleaseTag = latestTag r\<rparr>, tr1)"
proof -
  have "semver_valid (decimal major @ ''.'' @ decimal minor @ ''.'' @ decimal patch @ [])"
    using getAndVerifyTags_valid [OF assms(1)] assms(2) by simp
  then have p: "patch \<le> MAX_SAFE_INTEGER"
    using semver_valid_numbers [of major minor patch "[]"] by simp
  show ?thesis
    using assms
    by (simp add: getPatchVersion_def io_defs Let_def truthy_def js_split_version
          parseInt_decimal [OF p] number_toString_next [OF p])
qed

text \<open>The preview branch, with the number that \<open>parseInt\<close> reads.\<close>

lemma getPatchVersion_preview_eq:
  assumes "getAndVerifyTags w ''preview'' ''v*-preview*'' tr = (Inr r, tr1)"
  shows "getPatchVersion w (Some (AString ''preview'')) tr =
           (case js_index (js_split (CHR ''-'') (latestVersion r)) 1 of
              None \<Rightarrow> (Inl (invalid_preview_format (latestVersion r)), tr1)
            | Some pre \<Rightarrow>
                if pre = [] \<or> \<not> js_startsWith pre ''preview.''
                then (Inl (invalid_preview_format (latestVersion r)), tr1)
                else (case (case js_index (js_split (CHR ''.'') pre) 1 of
                              None \<Rightarrow> NaN | Some p \<Rightarrow> parseInt p) of
                        NaN \<Rightarrow> (Inl (Error (''Could not parse preview number from: '' @ pre)), tr1)
                      | previewNumber \<Rightarrow>
                          (Inr \<lparr>releaseVersion =
                                   js_template (js_index (js_split (CHR ''-'') (latestVersion r)) 0) @
                                   ''-preview.'' @
                                   number_toString (number_text w) (plus_one previewNumber),
                                 npmTag = ''preview'', previousReleaseTag = latestTag r\<rparr>, tr1)))"
  using assms
  by (simp add: getPatchVersion_def io_defs Let_def truthy_def
        split: option.splits js_number.splits)

text \<open>A preview number up to \<open>MAX_SAFE_INTEGER\<close> is incremented exactly.\<close>

lemma getPatchVersion_preview:
  assumes "getAndVerifyTags w ''preview'' ''v*-preview*'' tr = (Inr r, tr1)"
    and "latestVersion r = base @ ''-preview.'' @ decimal n" and "CHR ''-'' \<notin> set base"
    and "n \<le> MAX_SAFE_INTEGER"
  shows "getPatchVersion w (Some (AString ''preview'')) tr =
           (Inr \<lparr>releaseVersion = base @ ''-preview.'' @ decimal (Suc n),
                  npmTag = ''preview'', previousReleaseTag = latestTag r\<rparr>, tr1)"
proof -
  have nd: "CHR ''-'' \<notin> set (''preview.'' @ decimal n)"
    using digits_no_dash [OF decimal_digits, of n] by simp
  have "js_split (CHR ''-'') (base @ ''-'' @ (''preview.'' @ decimal n)) =
          base # js_split (CHR ''-'') (''preview.'' @ decimal n)"
    using assms(3) by (rule js_split_dash)
  then have 1: "js_split (CHR ''-'') (latestVersion r) = [base, ''preview.'' @ decimal n]"
    using assms(2) js_split_no_sep [OF nd] by simp
  have 2: "js_split (CHR ''.'') (decimal n) = [decimal n]"
    by (rule js_split_no_sep [OF digits_no_dot [OF decimal_digits]])
  show ?thesis
    unfolding getPatchVersion_preview_eq [OF assms(1)] 1
    by (simp add: 2 js_startsWith_def parseInt_decimal [OF assms(4)]
          number_toString_next [OF assms(4)])
qed

subsection \<open>The two formats of \<open>validateVersion\<close>\<close>

lemma js_join_Cons: "ys \<noteq> [] \<Longrightarrow> js_join sep (x # ys) = x @ sep @ js_join sep ys"
  by (cases ys) simp_all

lemma js_join_split: "js_join [c] (js_split c s) = s"
proof (induction s)
  case Nil
  then show ?case by simp
next
  case (Cons x xs)
  obtain y ys where split: "js_split c xs = y # ys"
    using js_split_not_Nil [of c xs] by (cases "js_split c xs") auto
  show ?case
  proof (cases "x = c")
    case True
    then show ?thesis using Cons split by (simp add: js_join_Cons)
  next
    case False
    then show ?thesis using Cons split by (cases ys) simp_all
  qed
qed

lemma js_split_three:
  assumes "list_all isDigit a" and "list_all isDigit b" and "CHR ''.'' \<notin> set c"
  shows "js_split (CHR ''.'') (a @ CHR ''.'' # b @ CHR ''.'' # c) = [a, b, c]"
proof -
  have "js_split (CHR ''.'') (a @ CHR ''.'' # (b @ CHR ''.'' # c)) =
          a # js_split (CHR ''.'') (b @ CHR ''.'' # c)"
    by (rule js_split_append) (rule digits_no_dot [OF assms(1)])
  also have "js_split (CHR ''.'') (b @ CHR ''.'' # c) = b # js_split (CHR ''.'') c"
    by (rule js_split_append) (rule digits_no_dot [OF assms(2)])
  also have "js_split (CHR ''.'') c = [c]"
    using assms(3) by (rule js_split_no_sep)
  finally show ?thesis by simp
qed

text \<open>\<open>matches_XYZ\<close> holds of the strings \<open>digits.digits.digits\<close> and of no other.\<close>

lemma matches_XYZ_iff:
  "matches_XYZ s \<longleftrightarrow>
     (\<exists>a b c. s = a @ ''.'' @ b @ ''.'' @ c \<and>
        a \<noteq> [] \<and> list_all isDigit a \<and> b \<noteq> [] \<and> list_all isDigit b \<and>
        c \<noteq> [] \<and> list_all isDigit c)"
proof
  assume m: "matches_XYZ s"
  then obtain a b c where split: "js_split (CHR ''.'') s = [a, b, c]"
    and d: "a \<noteq> []" "list_all isDigit a" "b \<noteq> []" "list_all isDigit b" "c \<noteq> []" "list_all isDigit c"
    by (auto simp: matches_XYZ_def split: list.splits)
  have "s = js_join ''.'' (js_split (CHR ''.'') s)" by (simp add: js_join_split)
  then have "s = a @ ''.'' @ b @ ''.'' @ c" by (simp add: split)
  with d show "\<exists>a b c. s = a @ ''.'' @ b @ ''.'' @ c \<and>
        a \<noteq> [] \<and> list_all isDigit a \<and> b \<noteq> [] \<and> list_all isDigit b \<and>
        c \<noteq> [] \<and> list_all isDigit c" by blast
next
  assume "\<exists>a b c. s = a @ ''.'' @ b @ ''.'' @ c \<and>
        a \<noteq> [] \<and> list_all isDigit a \<and> b \<noteq> [] \<and> list_all isDigit b \<and>
        c \<noteq> [] \<and> list_all isDigit c"
  then obtain a b c where s: "s = a @ ''.'' @ b @ ''.'' @ c"
    and d: "a \<noteq> []" "list_all isDigit a" "b \<noteq> []" "list_all isDigit b" "c \<noteq> []" "list_all isDigit c"
    by blast
  have "js_split (CHR ''.'') s = [a, b, c]"
    using js_split_three [OF d(2) d(4) digits_no_dot [OF d(6)]] s by simp
  with d show "matches_XYZ s" by (simp add: matches_XYZ_def)
qed

text \<open>
  \<open>matches_XYZ_preview_N\<close> holds of the strings \<open>digits.digits.digits-preview.digits\<close>
  and of no other.
\<close>

lemma matches_XYZ_preview_N_iff:
  "matches_XYZ_preview_N s \<longleftrightarrow>
     (\<exists>a b c d. s = a @ ''.'' @ b @ ''.'' @ c @ ''-preview.'' @ d \<and>
        a \<noteq> [] \<and> list_all isDigit a \<and> b \<noteq> [] \<and> list_all isDigit b \<and>
        c \<noteq> [] \<and> list_all isDigit c \<and> d \<noteq> [] \<and> list_all isDigit d)"
proof
  assume m: "matches_XYZ_preview_N s"
  then obtain a b cp d c where split: "js_split (CHR ''.'') s = [a, b, cp, d]"
    and split2: "js_split (CHR ''-'') cp = [c, ''preview'']"
    and dg: "a \<noteq> []" "list_all isDigit a" "b \<noteq> []" "list_all isDigit b" "c \<noteq> []" "list_all isDigit c"
      "d \<noteq> []" "list_all isDigit d"
    by (auto simp: matches_XYZ_preview_N_def split: list.splits)
  have "cp = js_join ''-'' (js_split (CHR ''-'') cp)" by (simp add: js_join_split)
  then have cp: "cp = c @ ''-preview''" by (simp add: split2)
  have "s = js_join ''.'' (js_split (CHR ''.'') s)" by (simp add: js_join_split)
  then have "s = a @ ''.'' @ b @ ''.'' @ c @ ''-preview.'' @ d" by (simp add: split cp)
  with dg show "\<exists>a b c d. s = a @ ''.'' @ b @ ''.'' @ c @ ''-preview.'' @ d \<and>
        a \<noteq> [] \<and> list_all isDigit a \<and> b \<noteq> [] \<and> list_all isDigit b \<and>
        c \<noteq> [] \<and> list_all isDigit c \<and> d \<noteq> [] \<and> list_all isDigit d" by blast
next
  assume "\<exists>a b c d. s = a @ ''.'' @ b @ ''.'' @ c @ ''-preview.'' @ d \<and>
        a \<noteq> [] \<and> list_all isDigit a \<and> b \<noteq> [] \<and> list_all isDigit b \<and>
        c \<noteq> [] \<and> list_all isDigit c \<and> d \<noteq> [] \<and> list_all isDigit d"
  then obtain a b c d where s: "s = a @ ''.'' @ b @ ''.'' @ c @ ''-preview.'' @ d"
    and dg: "a \<noteq> []" "list_all isDigit a" "b \<noteq> []" "list_all isDigit b" "c \<noteq> []" "list_all isDigit c"
      "d \<noteq> []" "list_all isDigit d"
    by blast
  have nd: "CHR ''.'' \<notin> set (c @ ''-preview'')" using digits_no_dot [OF dg(6)] by simp
  have "js_split (CHR ''.'') (a @ CHR ''.'' # b @ CHR ''.'' # ((c @ ''-preview'') @ CHR ''.'' # d)) =
          a # js_split (CHR ''.'') (b @ CHR ''.'' # ((c @ ''-preview'') @ CHR ''.'' # d))"
    by (rule js_split_append) (rule digits_no_dot [OF dg(2)])
  also have "js_split (CHR ''.'') (b @ CHR ''.'' # ((c @ ''-preview'') @ CHR ''.'' # d)) =
               b # js_split (CHR ''.'') ((c @ ''-preview'') @ CHR ''.'' # d)"
    by (rule js_split_append) (rule digits_no_dot [OF dg(4)])
  also have "js_split (CHR ''.'') ((c @ ''-preview'') @ CHR ''.'' # d) =
               (c @ ''-preview'') # js_split (CHR ''.'') d"
    using nd by (rule js_split_append)
  also have "js_split (CHR ''.'') d = [d]"
    by (rule js_split_no_sep) (rule digits_no_dot [OF dg(8)])
  finally have 1: "js_split (CHR ''.'') s = [a, b, c @ ''-preview'', d]" using s by simp
  have "js_split (CHR ''-'') (c @ CHR ''-'' # ''preview'') = c # js_split (CHR ''-'') ''preview''"
    by (rule js_split_append) (rule digits_no_dash [OF dg(6)])
  then have 2: "js_split (CHR ''-'') (c @ ''-preview'') = [c, ''preview'']" by simp
  show "matches_XYZ_preview_N s"
    using dg by (simp add: matches_XYZ_preview_N_def 1 2)
qed

subsection \<open>The conflict check, step by step\<close>

lemma check_npm_eq:
  "check_npm w v cs tr =
     (Inr (if (case run w npm_view_versions of
                 Inl m \<Rightarrow> False
               | Inr out \<Rightarrow>
                   (case JSON_parse w (js_trim out) of
                      None \<Rightarrow> False
                    | Some allVersions \<Rightarrow> js_includes allVersions v = Inr True))
           then cs @ [''NPM registry already has version '' @ v] else cs),
      tr @ [npm_view_versions])"
  by (simp add: check_npm_def io_defs Let_def split: sum.splits option.splits)

lemma check_git_eq:
  "check_git w v cs tr =
     (Inr (if (case run w (git_tag_l (''v'' @ v)) of
                 Inl m \<Rightarrow> False
               | Inr out \<Rightarrow> js_trim out = ''v'' @ v)
           then cs @ [''Git tag v'' @ v @ '' already exists''] else cs),
      tr @ [git_tag_l (''v'' @ v)])"
  by (simp add: check_git_def io_defs Let_def split: sum.splits)

lemma check_github_eq:
  "check_github w v cs tr =
     (Inr (if (case run w (gh_release_view (''v'' @ v)) of
                 Inl m \<Rightarrow> False
               | Inr out \<Rightarrow> js_trim out = ''v'' @ v)
           then cs @ [''GitHub release v'' @ v @ '' already exists''] else cs),
      tr @ [gh_release_view (''v'' @ v)])"
  by (simp add: check_github_def io_defs Let_def split: sum.splits)

lemma validateVersionConflicts_eq:
  "validateVersionConflicts w v tr =
     (let c1 = (if (case run w npm_view_versions of
                      Inl m \<Rightarrow> False
                    | Inr out \<Rightarrow>
                        (case JSON_parse w (js_trim out) of
                           None \<Rightarrow> False
                         | Some allVersions \<Rightarrow> js_includes allVersions v = Inr True))
                then [''NPM registry already has version '' @ v] else []);
          c2 = (if (case run w (git_tag_l (''v'' @ v)) of Inl m \<Rightarrow> False | Inr out \<Rightarrow> js_trim out = ''v'' @ v)
                then [''Git tag v'' @ v @ '' already exists''] else []);
          c3 = (if (case run w (gh_release_view (''v'' @ v)) of
                      Inl m \<Rightarrow> False
                    | Inr out \<Rightarrow> js_trim out = ''v'' @ v)
                then [''GitHub release v'' @ v @ '' already exists''] else [])
      in (if c1 @ c2 @ c3 = [] then Inr ()
          else Inl (Error (''Version conflict! Cannot create '' @ v @ '':'' @ [CHR 0x0A] @
                           js_join [CHR 0x0A] (c1 @ c2 @ c3))),
          tr @ [npm_view_versions, git_tag_l (''v'' @ v), gh_release_view (''v'' @ v)]))"
  by (auto simp add: validateVersionConflicts_def io_bind_def io_throw_def io_return_def
        check_npm_eq check_git_eq check_github_eq Let_def)

section \<open>The claims\<close>

subsection \<open>C1: the three-way validation of a channel\<close>

text \<open>
  C1. Let \<open>version\<close> be the registry's latest version for the channel and \<open>tag\<close> the
  highest tag of the tag store for the pattern, as \<open>getAndVerifyTags\<close> obtains them.
  If \<open>"v" + version\<close> differs from \<open>tag\<close>, the call throws the discrepancy error that
  names the channel and both values, returns no version, and does not ask the release
  host. If they are equal, the release host is asked for the release named \<open>tag\<close>:
  when the query fails, or its answer is not \<open>tag\<close>, the call throws a discrepancy
  error that names the tag; only when the answer is \<open>tag\<close> does it return the version
  and the tag.
\<close>

theorem getAndVerifyTags_three_way:
  assumes "getVersionFromNPM w channel tr = (Inr version, tr1)"
    and "getLatestTag w pattern tr1 = (Inr tag, tr2)"
  shows "(''v'' @ version \<noteq> tag \<longrightarrow>
            getAndVerifyTags w channel pattern tr =
              (Inl (Error (''Discrepancy found! NPM '' @ channel @ '' tag ('' @ version @
                           '') does not match latest git '' @ channel @ '' tag ('' @ tag @ '').'')),
               tr2)) \<and>
         (''v'' @ version = tag \<longrightarrow>
            (\<forall>m. run w (gh_release_view tag) = Inl m \<longrightarrow>
               getAndVerifyTags w channel pattern tr =
                 (Inl (Error (''Discrepancy found! Failed to verify GitHub release for '' @ tag @
                              ''. Error: '' @ m)),
                  tr2 @ [gh_release_view tag])) \<and>
            (\<forall>out. run w (gh_release_view tag) = Inr out \<longrightarrow> js_trim out \<noteq> tag \<longrightarrow>
               getAndVerifyTags w channel pattern tr =
                 (Inl (Error (''Discrepancy found! Failed to verify GitHub release for '' @ tag @
                              ''. Error: '' @ ''Discrepancy found! NPM version '' @ tag @
                              '' is missing a corresponding GitHub release.'')),
                  tr2 @ [gh_release_view tag])) \<and>
            (\<forall>out. run w (gh_release_view tag) = Inr out \<longrightarrow> js_trim out = tag \<longrightarrow>
               getAndVerifyTags w channel pattern tr =
                 (Inr \<lparr>latestVersion = version, latestTag = tag\<rparr>, tr2 @ [gh_release_view tag])))"
  using getAndVerifyTags_eq [OF assms]
  by (simp add: verifyGitHubReleaseExists_eq)

text \<open>
  The registry at \<open>0.4.1\<close> against the tag \<open>v0.4.2\<close>; a release host without the release,
  and one that answers with another name; and the three sources in agreement.
\<close>

theorem getAndVerifyTags_three_way_witness:
  "getAndVerifyTags drifted_world ''latest'' ''v[0-9].[0-9].[0-9]'' [] =
     (Inl (Error ''Discrepancy found! NPM latest tag (0.4.1) does not match latest git latest tag (v0.4.2).''),
      [npm_view_version ''latest'', git_tag_l ''v[0-9].[0-9].[0-9]'']) \<and>
   getAndVerifyTags unreleased_world ''latest'' ''v[0-9].[0-9].[0-9]'' [] =
     (Inl (Error ''Discrepancy found! Failed to verify GitHub release for v0.4.1. Error: release not found''),
      [npm_view_version ''latest'', git_tag_l ''v[0-9].[0-9].[0-9]'', gh_release_view ''v0.4.1'']) \<and>
   getAndVerifyTags misnamed_world ''latest'' ''v[0-9].[0-9].[0-9]'' [] =
     (Inl (Error (''Discrepancy found! Failed to verify GitHub release for v0.4.1. Error: '' @
                  ''Discrepancy found! NPM version v0.4.1 is missing a corresponding GitHub release.'')),
      [npm_view_version ''latest'', git_tag_l ''v[0-9].[0-9].[0-9]'', gh_release_view ''v0.4.1'']) \<and>
   getAndVerifyTags example_world ''latest'' ''v[0-9].[0-9].[0-9]'' [] =
     (Inr \<lparr>latestVersion = ''0.4.1'', latestTag = ''v0.4.1''\<rparr>,
      [npm_view_version ''latest'', git_tag_l ''v[0-9].[0-9].[0-9]'', gh_release_view ''v0.4.1''])"
proof -
  let ?npm = "npm_view_version ''latest''" and ?git = "git_tag_l ''v[0-9].[0-9].[0-9]''"
  have d1: "getVersionFromNPM drifted_world ''latest'' [] = (Inr ''0.4.1'', [?npm])"
    by (simp add: drifted_world_def example_latest_npm command_defs)
  have d2: "getLatestTag drifted_world ''v[0-9].[0-9].[0-9]'' [?npm] = (Inr ''v0.4.2'', [?npm, ?git])"
    by (simp add: drifted_world_def query_defs world_defs command_defs semver_defs)
  have drifted: "getAndVerifyTags drifted_world ''latest'' ''v[0-9].[0-9].[0-9]'' [] =
     (Inl (Error ''Discrepancy found! NPM latest tag (0.4.1) does not match latest git latest tag (v0.4.2).''),
      [?npm, ?git])"
    using getAndVerifyTags_three_way [OF d1 d2] by simp
  have u1: "getVersionFromNPM unreleased_world ''latest'' [] = (Inr ''0.4.1'', [?npm])"
    by (simp add: unreleased_world_def example_latest_npm command_defs)
  have u2: "getLatestTag unreleased_world ''v[0-9].[0-9].[0-9]'' [?npm] = (Inr ''v0.4.1'', [?npm, ?git])"
    by (simp add: unreleased_world_def example_latest_tag)
  have u3: "run unreleased_world (gh_release_view ''v0.4.1'') = Inl ''release not found''"
    by (simp add: unreleased_world_def)
  have unreleased: "getAndVerifyTags unreleased_world ''latest'' ''v[0-9].[0-9].[0-9]'' [] =
     (Inl (Error ''Discrepancy found! Failed to verify GitHub release for v0.4.1. Error: release not found''),
      [?npm, ?git, gh_release_view ''v0.4.1''])"
    using getAndVerifyTags_three_way [OF u1 u2] u3 by simp
  have m1: "getVersionFromNPM misnamed_world ''latest'' [] = (Inr ''0.4.1'', [?npm])"
    by (simp add: misnamed_world_def example_latest_npm command_defs)
  have m2: "getLatestTag misnamed_world ''v[0-9].[0-9].[0-9]'' [?npm] = (Inr ''v0.4.1'', [?npm, ?git])"
    by (simp add: misnamed_world_def example_latest_tag)
  have m3: "run misnamed_world (gh_release_view ''v0.4.1'') = Inr (line ''v0.4.0'')"
    by (simp add: misnamed_world_def)
  have m4: "js_trim (line ''v0.4.0'') \<noteq> ''v0.4.1''"
    by (simp add: line_def js_trim_def isWhiteSpace_def)
  have misnamed: "getAndVerifyTags misnamed_world ''latest'' ''v[0-9].[0-9].[0-9]'' [] =
     (Inl (Error (''Discrepancy found! Failed to verify GitHub release for v0.4.1. Error: '' @
                  ''Discrepancy found! NPM version v0.4.1 is missing a corresponding GitHub release.'')),
      [?npm, ?git, gh_release_view ''v0.4.1''])"
    using getAndVerifyTags_three_way [OF m1 m2] m3 m4 by simp
  have e1: "getVersionFromNPM example_world ''latest'' [] = (Inr ''0.4.1'', [?npm])"
    by (simp add: getVersionFromNPM_returns world_defs command_defs js_trim_def isWhiteSpace_def)
  have e2: "getLatestTag example_world ''v[0-9].[0-9].[0-9]'' [?npm] = (Inr ''v0.4.1'', [?npm, ?git])"
    by (simp add: query_defs world_defs command_defs semver_defs)
  have e3: "run example_world (gh_release_view ''v0.4.1'') = Inr (line ''v0.4.1'')"
    by (simp add: world_defs command_defs)
  have e4: "js_trim (line ''v0.4.1'') = ''v0.4.1''"
    by (simp add: line_def js_trim_def isWhiteSpace_def)
  have agreed: "getAndVerifyTags example_world ''latest'' ''v[0-9].[0-9].[0-9]'' [] =
     (Inr \<lparr>latestVersion = ''0.4.1'', latestTag = ''v0.4.1''\<rparr>, [?npm, ?git, gh_release_view ''v0.4.1''])"
    using getAndVerifyTags_three_way [OF e1 e2] e3 e4 by simp
  from drifted unreleased misnamed agreed show ?thesis by simp
qed

subsection \<open>C2: the latest tag\<close>

text \<open>
  C2 as stated fails where two tags differ in a numeric prerelease identifier from
  \<open>2^53\<close> on. Of \<open>v1.0.0-9007199254740992\<close> and \<open>v1.0.0-9007199254740993\<close>, reported in
  that order, \<open>getLatestTag\<close> returns the first, and the second is a valid version of
  higher precedence: the package compares the two identifiers as doubles, finds them
  equal, and the sort keeps the reported order.
\<close>

theorem getLatestTag_not_highest_counterexample:
  "getLatestTag big_id_world ''v1.0.0-*'' [] =
     (Inr ''v1.0.0-9007199254740992'', [git_tag_l ''v1.0.0-*'']) \<and>
   semver_valid ''1.0.0-9007199254740993'' \<and>
   0 < semver_precedence ''1.0.0-9007199254740993'' ''1.0.0-9007199254740992''"
proof -
  have 1: "getLatestTag big_id_world ''v1.0.0-*'' [] =
             (Inr ''v1.0.0-9007199254740992'', [git_tag_l ''v1.0.0-*''])"
    by (simp add: big_id_world_def query_defs world_defs command_defs semver_defs
          bit_length_numeral)
  have 2: "semver_valid ''1.0.0-9007199254740993''"
    by (simp add: semver_defs)
  have 3: "0 < semver_precedence ''1.0.0-9007199254740993'' ''1.0.0-9007199254740992''"
    by (simp add: semver_defs precedence_defs)
  from 1 2 3 show ?thesis by simp
qed

text \<open>
  C2, amended. Let \<open>versions\<close> be the lines of the tag store's answer, each without one
  leading \<open>v\<close>, that are valid versions (none when the query fails), and let none of
  them have a prerelease identifier that is a run of digits worth \<open>MAX_SAFE_INTEGER\<close>
  (\<open>2^53 - 1\<close>) or more. When there is none, \<open>getLatestTag\<close> returns the empty string.
  Otherwise it returns \<open>"v" + v\<close> for a \<open>v\<close> among them that no other of them exceeds
  in semantic-version precedence, wherever the answer lists it.
\<close>

theorem getLatestTag_highest_precedence:
  assumes "versions =
             filter semver_valid
               (map replace_leading_v
                  (case run w (git_tag_l pattern) of
                     Inl m \<Rightarrow> []
                   | Inr out \<Rightarrow> filter (\<lambda>t. t \<noteq> []) (js_split (CHR 0x0A) (js_trim out))))"
    and "list_all safe_version versions"
  shows "(versions = [] \<longrightarrow> getLatestTag w pattern tr = (Inr [], tr @ [git_tag_l pattern])) \<and>
         (versions \<noteq> [] \<longrightarrow>
            (\<exists>v\<in>set versions.
               getLatestTag w pattern tr = (Inr (CHR ''v'' # v), tr @ [git_tag_l pattern]) \<and>
               (\<forall>u\<in>set versions. semver_precedence u v \<le> 0)))"
proof (cases "run w (git_tag_l pattern)")
  case (Inl m)
  then show ?thesis using assms(1) by (simp add: getLatestTag_def io_defs)
next
  case (Inr out)
  let ?tags = "filter (\<lambda>t. t \<noteq> []) (js_split (CHR 0x0A) (js_trim out))"
  have v: "versions = filter semver_valid (map replace_leading_v ?tags)"
    using assms(1) Inr by simp
  show ?thesis
  proof (cases "js_sort semver_rcompare versions")
    case Nil
    then have "versions = []" by simp
    then show ?thesis using Inr v by (simp add: getLatestTag_def io_defs Let_def)
  next
    case (Cons x rest)
    then have ne: "versions \<noteq> []" by auto
    then have tags: "?tags \<noteq> []" using v by auto
    have first: "x \<in> set versions \<and> (\<forall>u\<in>set versions. semver_precedence u x \<le> 0)"
      using Cons assms(2) unfolding v by (rule js_sort_semver_first)
    have "getLatestTag w pattern tr = (Inr (CHR ''v'' # x), tr @ [git_tag_l pattern])"
      using Inr Cons tags unfolding v by (simp add: getLatestTag_def io_defs Let_def)
    with first ne show ?thesis by blast
  qed
qed

text \<open>
  Of \<open>v0.9.0\<close>, \<open>v0.10.0\<close>, \<open>vnext\<close> and \<open>v0.2.0\<close>, reported in two different orders, the
  latest is \<open>v0.10.0\<close>, although \<open>0.10.0\<close> is below \<open>0.9.0\<close> as a string; of
  \<open>v0.5.0-preview.1\<close> and \<open>v0.5.0-preview.2\<close> it is the second; with no valid version
  the result is empty.
\<close>

theorem getLatestTag_highest_precedence_witness:
  "getLatestTag unordered_world ''v[0-9]*'' [] = (Inr ''v0.10.0'', [git_tag_l ''v[0-9]*'']) \<and>
   getLatestTag reordered_world ''v[0-9]*'' [] = (Inr ''v0.10.0'', [git_tag_l ''v[0-9]*'']) \<and>
   getLatestTag example_world ''v*-preview*'' [] =
     (Inr ''v0.5.0-preview.2'', [git_tag_l ''v*-preview*'']) \<and>
   getLatestTag untagged_world ''v[0-9]*'' [] = (Inr [], [git_tag_l ''v[0-9]*'']) \<and>
   ''0.10.0'' < ''0.9.0''"
proof -
  have c1: "0 < semver_precedence ''0.10.0'' ''0.9.0''"
    and c2: "0 < semver_precedence ''0.10.0'' ''0.2.0''"
    and c3: "0 < semver_precedence ''0.5.0-preview.2'' ''0.5.0-preview.1''"
    by (simp_all add: semver_defs precedence_defs)
  have u: "filter semver_valid
             (map replace_leading_v
                (case run unordered_world (git_tag_l ''v[0-9]*'') of
                   Inl m \<Rightarrow> []
                 | Inr out \<Rightarrow> filter (\<lambda>t. t \<noteq> []) (js_split (CHR 0x0A) (js_trim out)))) =
           [''0.9.0'', ''0.10.0'', ''0.2.0'']"
    by (simp add: unordered_world_def line_def semver_defs)
  have su: "list_all safe_version [''0.9.0'', ''0.10.0'', ''0.2.0'']"
    by (simp add: semver_defs precedence_defs)
  have 1: "getLatestTag unordered_world ''v[0-9]*'' [] = (Inr ''v0.10.0'', [git_tag_l ''v[0-9]*''])"
    using getLatestTag_highest_precedence [OF u [symmetric] su, of "[]"] c1 c2 by auto
  have r: "filter semver_valid
             (map replace_leading_v
                (case run reordered_world (git_tag_l ''v[0-9]*'') of
                   Inl m \<Rightarrow> []
                 | Inr out \<Rightarrow> filter (\<lambda>t. t \<noteq> []) (js_split (CHR 0x0A) (js_trim out)))) =
           [''0.2.0'', ''0.10.0'', ''0.9.0'']"
    by (simp add: reordered_world_def line_def semver_defs)
  have sr: "list_all safe_version [''0.2.0'', ''0.10.0'', ''0.9.0'']"
    by (simp add: semver_defs precedence_defs)
  have 2: "getLatestTag reordered_world ''v[0-9]*'' [] = (Inr ''v0.10.0'', [git_tag_l ''v[0-9]*''])"
    using getLatestTag_highest_precedence [OF r [symmetric] sr, of "[]"] c1 c2 by auto
  have p: "filter semver_valid
             (map replace_leading_v
                (case run example_world (git_tag_l ''v*-preview*'') of
                   Inl m \<Rightarrow> []
                 | Inr out \<Rightarrow> filter (\<lambda>t. t \<noteq> []) (js_split (CHR 0x0A) (js_trim out)))) =
           [''0.5.0-preview.1'', ''0.5.0-preview.2'']"
    by (simp add: world_defs command_defs semver_defs)
  have sp: "list_all safe_version [''0.5.0-preview.1'', ''0.5.0-preview.2'']"
    by (simp add: semver_defs precedence_defs)
  have 3: "getLatestTag example_world ''v*-preview*'' [] =
             (Inr ''v0.5.0-preview.2'', [git_tag_l ''v*-preview*''])"
    using getLatestTag_highest_precedence [OF p [symmetric] sp, of "[]"] c3 by auto
  have n: "filter semver_valid
             (map replace_leading_v
                (case run untagged_world (git_tag_l ''v[0-9]*'') of
                   Inl m \<Rightarrow> []
                 | Inr out \<Rightarrow> filter (\<lambda>t. t \<noteq> []) (js_split (CHR 0x0A) (js_trim out)))) = []"
    by (simp add: untagged_world_def line_def semver_defs)
  have 4: "getLatestTag untagged_world ''v[0-9]*'' [] = (Inr [], [git_tag_l ''v[0-9]*''])"
    using getLatestTag_highest_precedence [OF n [symmetric], of "[]"] by simp
  have 5: "''0.10.0'' < ''0.9.0''" by simp
  from 1 2 3 4 5 show ?thesis by simp
qed

subsection \<open>C3: the conflict check\<close>

text \<open>
  C3. For a computed version \<open>v\<close> the conflict check issues its three queries, whatever
  their outcome. A source counts as having the version when its query succeeds and
  reports it; a query that fails (or a registry answer that cannot be read) counts as
  not having it. The sources that have it each contribute one line, in the order
  registry, tag store, release host; when there is at least one line the check throws
  one error that lists them all, otherwise it returns. In particular a version listed
  by the registry is reported even when the two other queries fail.
\<close>

theorem validateVersionConflicts_aggregate:
  assumes "in_registry =
             (case run w npm_view_versions of
                Inl m \<Rightarrow> False
              | Inr out \<Rightarrow>
                  (case JSON_parse w (js_trim out) of
                     None \<Rightarrow> False
                   | Some allVersions \<Rightarrow> js_includes allVersions v = Inr True))"
    and "in_tag_store =
           (case run w (git_tag_l (''v'' @ v)) of Inl m \<Rightarrow> False | Inr out \<Rightarrow> js_trim out = ''v'' @ v)"
    and "in_release_host =
           (case run w (gh_release_view (''v'' @ v)) of
              Inl m \<Rightarrow> False
            | Inr out \<Rightarrow> js_trim out = ''v'' @ v)"
    and "conflicts =
           (if in_registry then [''NPM registry already has version '' @ v] else []) @
           (if in_tag_store then [''Git tag v'' @ v @ '' already exists''] else []) @
           (if in_release_host then [''GitHub release v'' @ v @ '' already exists''] else [])"
  shows "validateVersionConflicts w v tr =
           (if conflicts = [] then Inr ()
            else Inl (Error (''Version conflict! Cannot create '' @ v @ '':'' @ [CHR 0x0A] @
                             js_join [CHR 0x0A] conflicts)),
            tr @ [npm_view_versions, git_tag_l (''v'' @ v), gh_release_view (''v'' @ v)]) \<and>
         (in_registry \<longrightarrow> (\<exists>m. run w (git_tag_l (''v'' @ v)) = Inl m) \<longrightarrow>
            (\<exists>m. run w (gh_release_view (''v'' @ v)) = Inl m) \<longrightarrow>
            fst (validateVersionConflicts w v tr) =
              Inl (Error (''Version conflict! Cannot create '' @ v @ '':'' @ [CHR 0x0A] @
                          ''NPM registry already has version '' @ v)))"
  using assms
  by (auto simp add: validateVersionConflicts_def io_bind_def io_throw_def io_return_def
        check_npm_eq check_git_eq check_github_eq)

theorem validateVersionConflicts_aggregate_witness:
  "validateVersionConflicts reused_world ''0.4.2'' [] =
     (Inl (Error (''Version conflict! Cannot create 0.4.2:'' @ [CHR 0x0A] @
                  ''NPM registry already has version 0.4.2'')),
      [npm_view_versions, git_tag_l ''v0.4.2'', gh_release_view ''v0.4.2'']) \<and>
   validateVersionConflicts example_world ''0.4.2'' [] =
     (Inr (), [npm_view_versions, git_tag_l ''v0.4.2'', gh_release_view ''v0.4.2''])"
proof -
  have r1: "run reused_world npm_view_versions = Inr (line versions_json)"
    by (simp add: reused_world_def world_defs command_defs)
  have t: "js_trim (line versions_json) = versions_json"
    by (simp add: line_def versions_json_def js_trim_def isWhiteSpace_def)
  have r2: "run reused_world (git_tag_l ''v0.4.2'') = Inl (''Command failed: '' @ git_tag_l ''v0.4.2'')"
    by (simp add: reused_world_def world_defs command_defs)
  have r3: "run reused_world (gh_release_view ''v0.4.2'') =
              Inl (''Command failed: '' @ gh_release_view ''v0.4.2'')"
    by (simp add: reused_world_def world_defs command_defs)
  have r4: "JSON_parse reused_world versions_json =
              Some (JArray [JString ''0.4.0'', JString ''0.4.1'', JString ''0.4.2''])"
    by (simp add: reused_world_def)
  have 1: "validateVersionConflicts reused_world ''0.4.2'' [] =
     (Inl (Error (''Version conflict! Cannot create 0.4.2:'' @ [CHR 0x0A] @
                  ''NPM registry already has version 0.4.2'')),
      [npm_view_versions, git_tag_l ''v0.4.2'', gh_release_view ''v0.4.2''])"
    using validateVersionConflicts_aggregate
      [OF refl refl refl refl, where w = reused_world and v = "''0.4.2''" and tr = "[]"]
    by (simp add: r1 r2 r3 r4 t js_includes_def)
  have e1: "run example_world npm_view_versions = Inr (line versions_json)"
    by (simp add: world_defs command_defs)
  have e2: "run example_world (git_tag_l ''v0.4.2'') = Inl (''Command failed: '' @ git_tag_l ''v0.4.2'')"
    by (simp add: world_defs command_defs)
  have e3: "run example_world (gh_release_view ''v0.4.2'') =
              Inl (''Command failed: '' @ gh_release_view ''v0.4.2'')"
    by (simp add: world_defs command_defs)
  have e4: "JSON_parse example_world versions_json = Some (JArray [JString ''0.4.0'', JString ''0.4.1''])"
    by (simp add: example_world_def)
  have 2: "validateVersionConflicts example_world ''0.4.2'' [] =
     (Inr (), [npm_view_versions, git_tag_l ''v0.4.2'', gh_release_view ''v0.4.2''])"
    using validateVersionConflicts_aggregate
      [OF refl refl refl refl, where w = example_world and v = "''0.4.2''" and tr = "[]"]
    by (simp add: e1 e2 e3 e4 t js_includes_def)
  from 1 2 show ?thesis by simp
qed

subsection \<open>C4: the nightly version\<close>

text \<open>
  C4. When the nightly channel validates with latest version
  \<open>major.minor.patch-prerelease\<close> (the three numbers in decimal), the commit hash can
  be read and the UTC year is between 0 and 9999, \<open>getNightlyVersion\<close> returns
  \<open>releaseVersion = major.(minor + 1).0-nightly.YYYYMMDD.hash\<close> with \<open>YYYYMMDD\<close> the
  UTC date of the clock and \<open>hash\<close> the trimmed answer of \<open>git rev-parse --short HEAD\<close>,
  \<open>npmTag = nightly\<close>, and \<open>previousReleaseTag\<close> the validated nightly tag.
\<close>

theorem getNightlyVersion_next_minor:
  assumes "getAndVerifyTags w ''nightly'' ''v*-nightly*'' tr = (Inr r, tr1)"
    and "latestVersion r =
           decimal major @ ''.'' @ decimal minor @ ''.'' @ decimal patch @ ''-'' @ prerelease"
    and "run w git_rev_parse = Inr out"
    and "0 \<le> year (now w)" and "year (now w) \<le> 9999"
  shows "getNightlyVersion w tr =
           (Inr \<lparr>releaseVersion =
                    decimal major @ ''.'' @ decimal (minor + 1) @ ''.0-nightly.'' @
                    pad_digits 4 (nat (year (now w))) @ pad_digits 2 (month (now w)) @
                    pad_digits 2 (day (now w)) @ ''.'' @ js_trim out,
                  npmTag = ''nightly'',
                  previousReleaseTag = latestTag r\<rparr>,
            tr1 @ [git_rev_parse])"
  using getNightlyVersion_eq [OF assms(1,2,3)] date_YYYYMMDD [OF assms(4,5)] by simp

text \<open>
  Latest nightly \<open>0.6.0-nightly.20250910.a31830a3\<close> on 2025-09-17 at commit \<open>d3bf8a3d\<close>.
\<close>

theorem getNightlyVersion_next_minor_witness:
  "getNightlyVersion example_world [] =
     (Inr \<lparr>releaseVersion = ''0.7.0-nightly.20250917.d3bf8a3d'',
            npmTag = ''nightly'',
            previousReleaseTag = ''v0.6.0-nightly.20250910.a31830a3''\<rparr>,
      [npm_view_version ''nightly'', git_tag_l ''v*-nightly*'',
       gh_release_view ''v0.6.0-nightly.20250910.a31830a3'', git_rev_parse])"
proof -
  have v: "latestVersion \<lparr>latestVersion = ''0.6.0-nightly.20250910.a31830a3'',
                          latestTag = ''v0.6.0-nightly.20250910.a31830a3''\<rparr> =
             decimal 0 @ ''.'' @ decimal 6 @ ''.'' @ decimal 0 @ ''-'' @ ''nightly.20250910.a31830a3''"
    by (simp add: decimal_small digit_chars)
  have h: "run example_world git_rev_parse = Inr (line ''d3bf8a3d'')"
    by (simp add: world_defs command_defs)
  have y: "0 \<le> year (now example_world)" "year (now example_world) \<le> 9999"
    by (simp_all add: example_world_def)
  have d: "pad_digits 4 (nat (year (now example_world))) = ''2025''"
    "pad_digits 2 (month (now example_world)) = ''09''"
    "pad_digits 2 (day (now example_world)) = ''17''"
    by (simp_all add: example_world_def pad_digits_numeral digit_chars)
  have s: "decimal (6 + 1) = ''7''" "decimal 0 = ''0''"
    by (simp_all add: decimal_small digit_chars)
  have t: "js_trim (line ''d3bf8a3d'') = ''d3bf8a3d''"
    by (simp add: line_def js_trim_def isWhiteSpace_def)
  show ?thesis
    unfolding getNightlyVersion_next_minor [OF example_nightly v h y] d s t by simp
qed

subsection \<open>C5: the stable version\<close>

text \<open>
  C5. With no \<open>stable_version_override\<close>, when the preview channel validates and then
  the \<open>latest\<close> channel validates under the pattern \<open>v[0-9].[0-9].[0-9]\<close>,
  \<open>getStableVersion\<close> returns the latest preview version with its first \<open>-preview\<close> and
  what follows removed as \<open>releaseVersion\<close> (for a version \<open>base-preview...\<close> whose
  \<open>base\<close> has no dash, that is \<open>base\<close>), \<open>npmTag = latest\<close>, and the tag of the
  \<open>latest\<close> channel as \<open>previousReleaseTag\<close>; the \<open>latest\<close> channel contributes nothing
  else.
\<close>

theorem getStableVersion_from_preview:
  assumes "\<not> truthy (args ''stable_version_override'')"
    and "getAndVerifyTags w ''preview'' ''v*-preview*'' tr = (Inr r1, tr1)"
    and "getAndVerifyTags w ''latest'' ''v[0-9].[0-9].[0-9]'' tr1 = (Inr r2, tr2)"
  shows "getStableVersion w args tr =
           (Inr \<lparr>releaseVersion = replace_to_eol ''-preview'' (latestVersion r1),
                  npmTag = ''latest'', previousReleaseTag = latestTag r2\<rparr>, tr2) \<and>
         (\<forall>base rest. latestVersion r1 = base @ ''-preview'' @ rest \<longrightarrow> CHR ''-'' \<notin> set base \<longrightarrow>
            list_all (\<lambda>c. \<not> isLineTerminator c) rest \<longrightarrow>
            replace_to_eol ''-preview'' (latestVersion r1) = base)"
  using getStableVersion_no_override [where args = args, OF assms(1,2)] assms(3)
    replace_to_eol_suffix [where p = "''preview''"]
  by simp

text \<open>Preview \<open>0.5.0-preview.2\<close> and stable \<open>0.4.1\<close>.\<close>

theorem getStableVersion_from_preview_witness:
  "getStableVersion example_world Map.empty [] =
     (Inr \<lparr>releaseVersion = ''0.5.0'', npmTag = ''latest'', previousReleaseTag = ''v0.4.1''\<rparr>,
      [npm_view_version ''preview'', git_tag_l ''v*-preview*'', gh_release_view ''v0.5.0-preview.2'',
       npm_view_version ''latest'', git_tag_l ''v[0-9].[0-9].[0-9]'', gh_release_view ''v0.4.1''])"
proof -
  have n: "\<not> truthy (Map.empty ''stable_version_override'')" by (simp add: truthy_def)
  show ?thesis
    using getStableVersion_from_preview
      [where args = Map.empty and tr = "[]", OF n example_preview example_latest]
    by (simp add: js_startsWith_def isLineTerminator_def)
qed

subsection \<open>C6: the preview version\<close>

text \<open>
  C6. With no \<open>preview_version_override\<close>, when the nightly channel validates and then
  the preview channel validates, \<open>getPreviewVersion\<close> returns the latest nightly
  version with its first \<open>-nightly\<close> and what follows removed, followed by \<open>-preview.0\<close>,
  as \<open>releaseVersion\<close> (for a version \<open>base-nightly...\<close> whose \<open>base\<close> has no dash, that
  is \<open>base-preview.0\<close>), and \<open>npmTag = preview\<close>.
\<close>

theorem getPreviewVersion_from_nightly:
  assumes "\<not> truthy (args ''preview_version_override'')"
    and "getAndVerifyTags w ''nightly'' ''v*-nightly*'' tr = (Inr r1, tr1)"
    and "getAndVerifyTags w ''preview'' ''v*-preview*'' tr1 = (Inr r2, tr2)"
  shows "getPreviewVersion w args tr =
           (Inr \<lparr>releaseVersion = replace_to_eol ''-nightly'' (latestVersion r1) @ ''-preview.0'',
                  npmTag = ''preview'', previousReleaseTag = latestTag r2\<rparr>, tr2) \<and>
         (\<forall>base rest. latestVersion r1 = base @ ''-nightly'' @ rest \<longrightarrow> CHR ''-'' \<notin> set base \<longrightarrow>
            list_all (\<lambda>c. \<not> isLineTerminator c) rest \<longrightarrow>
            replace_to_eol ''-nightly'' (latestVersion r1) @ ''-preview.0'' = base @ ''-preview.0'')"
  using getPreviewVersion_no_override [where args = args, OF assms(1,2)] assms(3)
    replace_to_eol_suffix [where p = "''nightly''"]
  by simp

text \<open>Nightly \<open>0.6.0-nightly.20250910.a31830a3\<close> and preview \<open>0.5.0-preview.2\<close>.\<close>

theorem getPreviewVersion_from_nightly_witness:
  "getPreviewVersion example_world Map.empty [] =
     (Inr \<lparr>releaseVersion = ''0.6.0-preview.0'', npmTag = ''preview'',
            previousReleaseTag = ''v0.5.0-preview.2''\<rparr>,
      [npm_view_version ''nightly'', git_tag_l ''v*-nightly*'',
       gh_release_view ''v0.6.0-nightly.20250910.a31830a3'',
       npm_view_version ''preview'', git_tag_l ''v*-preview*'', gh_release_view ''v0.5.0-preview.2''])"
proof -
  have n: "\<not> truthy (Map.empty ''preview_version_override'')" by (simp add: truthy_def)
  show ?thesis
    using getPreviewVersion_from_nightly
      [where args = Map.empty and tr = "[]", OF n example_nightly example_preview]
    by (simp add: js_startsWith_def isLineTerminator_def)
qed

subsection \<open>C7: the patch version\<close>

lemma odd_preview:
  "getAndVerifyTags odd_preview_world ''preview'' ''v*-preview*'' tr =
     (Inr \<lparr>latestVersion = ''0.5.0-preview.2abc'', latestTag = ''v0.5.0-preview.2abc''\<rparr>,
      tr @ [npm_view_version ''preview'', git_tag_l ''v*-preview*'',
            gh_release_view ''v0.5.0-preview.2abc''])"
  by (simp add: odd_preview_world_def query_defs world_defs command_defs semver_defs)

text \<open>
  C7, at the preview version \<open>0.5.0-preview.2abc\<close>, which the registry, the tag store
  and the release host all hold: the suffix \<open>2abc\<close> is not a number, yet
  \<open>getPatchVersion\<close> throws no parse error; \<open>parseInt\<close> reads the leading \<open>2\<close> and the
  call returns \<open>0.5.0-preview.3\<close>.
\<close>

theorem getPatchVersion_preview_trailing_text:
  "getPatchVersion odd_preview_world (Some (AString ''preview'')) [] =
     (Inr \<lparr>releaseVersion = ''0.5.0-preview.3'', npmTag = ''preview'',
            previousReleaseTag = ''v0.5.0-preview.2abc''\<rparr>,
      [npm_view_version ''preview'', git_tag_l ''v*-preview*'',
       gh_release_view ''v0.5.0-preview.2abc''])"
proof -
  have p: "parseInt ''2abc'' = Num 2"
    by (simp add: parseInt_def isWhiteSpace_def digit_value_def digits_value_def Let_def
          to_number_def round_to_double_def)
  have n: "number_toString large (plus_one (Num 2)) = ''3''" for large
    by (simp add: number_toString_def plus_one_def int_to_number_def to_number_def
          round_to_double_def decimal_small digit_chars)
  show ?thesis
    unfolding getPatchVersion_preview_eq [OF odd_preview]
    by (simp add: js_startsWith_def p n)
qed

text \<open>The whole resolution at that version: the conflict check passes and the tag is built.\<close>

theorem getPatchVersion_preview_trailing_text_witness:
  "getVersion odd_preview_world [''type'' \<mapsto> AString ''patch'', ''patch-from'' \<mapsto> AString ''preview''] [] =
     (Inr \<lparr>releaseVersion = ''0.5.0-preview.3'', npmTag = ''preview'',
            previousReleaseTag = ''v0.5.0-preview.2abc'', releaseTag = ''v0.5.0-preview.3''\<rparr>,
      [npm_view_version ''preview'', git_tag_l ''v*-preview*'',
       gh_release_view ''v0.5.0-preview.2abc'',
       npm_view_versions, git_tag_l ''v0.5.0-preview.3'', gh_release_view ''v0.5.0-preview.3''])"
proof -
  have a: "getArgs odd_preview_world = Map.empty"
    by (simp add: getArgs_def odd_preview_world_def example_world_def)
  have c: "validateVersionConflicts odd_preview_world ''0.5.0-preview.3'' tr =
             (Inr (), tr @ [npm_view_versions, git_tag_l ''v0.5.0-preview.3'',
                            gh_release_view ''v0.5.0-preview.3''])" for tr
    by (simp add: validateVersionConflicts_eq odd_preview_world_def world_defs command_defs
          js_trim_def isWhiteSpace_def js_includes_def)
  show ?thesis
    by (simp add: getVersion_def a release_type_def io_bind_def io_return_def
          getPatchVersion_preview_trailing_text c version_data.defs)
qed

text \<open>What the claim says of the other versions holds.\<close>

lemma getPatchVersion_missing_prerelease:
  assumes "getAndVerifyTags w ''preview'' ''v*-preview*'' tr = (Inr r, tr1)"
    and "CHR ''-'' \<notin> set (latestVersion r)"
  shows "getPatchVersion w (Some (AString ''preview'')) tr =
           (Inl (invalid_preview_format (latestVersion r)), tr1)"
  unfolding getPatchVersion_preview_eq [OF assms(1)] js_split_no_sep [OF assms(2)] by simp

lemma getPatchVersion_no_number:
  assumes "getAndVerifyTags w ''preview'' ''v*-preview*'' tr = (Inr r, tr1)"
    and "latestVersion r = base @ ''-preview.'' @ suffix" and "CHR ''-'' \<notin> set base"
    and "CHR ''-'' \<notin> set suffix" and "CHR ''.'' \<notin> set suffix" and "parseInt suffix = NaN"
  shows "getPatchVersion w (Some (AString ''preview'')) tr =
           (Inl (Error (''Could not parse preview number from: preview.'' @ suffix)), tr1)"
proof -
  have nd: "CHR ''-'' \<notin> set (''preview.'' @ suffix)" using assms(4) by simp
  have "js_split (CHR ''-'') (base @ ''-'' @ (''preview.'' @ suffix)) =
          base # js_split (CHR ''-'') (''preview.'' @ suffix)"
    using assms(3) by (rule js_split_dash)
  then have 1: "js_split (CHR ''-'') (latestVersion r) = [base, ''preview.'' @ suffix]"
    using assms(2) js_split_no_sep [OF nd] by simp
  have 2: "js_split (CHR ''.'') suffix = [suffix]"
    using assms(5) by (rule js_split_no_sep)
  show ?thesis
    unfolding getPatchVersion_preview_eq [OF assms(1)] 1
    by (simp add: 2 js_startsWith_def assms(6))
qed

subsection \<open>C8: manual overrides\<close>

text \<open>
  C8 as stated fails: the override \<open>v1.2.3\<close> is not of the form \<open>X.Y.Z\<close>, and the
  call does not fail; the leading \<open>v\<close> is removed before the format is tested.
\<close>

theorem override_not_matched_exactly_counterexample:
  "\<not> matches_XYZ ''v1.2.3'' \<and>
   getStableVersion example_world [''stable_version_override'' \<mapsto> AString ''v1.2.3''] [] =
     (Inr \<lparr>releaseVersion = ''1.2.3'', npmTag = ''latest'', previousReleaseTag = ''v0.4.1''\<rparr>,
      [npm_view_version ''preview'', git_tag_l ''v*-preview*'', gh_release_view ''v0.5.0-preview.2'',
       npm_view_version ''latest'', git_tag_l ''v[0-9].[0-9].[0-9]'', gh_release_view ''v0.4.1''])"
proof -
  have 1: "\<not> matches_XYZ ''v1.2.3''" by (simp add: matches_XYZ_def isDigit_def)
  have 2: "matches_XYZ (replace_leading_v ''v1.2.3'')"
    by (simp add: matches_XYZ_def isDigit_def replace_leading_v_def)
  have a: "[''stable_version_override'' \<mapsto> AString ''v1.2.3''] ''stable_version_override'' =
             Some (AString ''v1.2.3'')" by simp
  have "getStableVersion example_world [''stable_version_override'' \<mapsto> AString ''v1.2.3''] [] =
     (Inr \<lparr>releaseVersion = ''1.2.3'', npmTag = ''latest'', previousReleaseTag = ''v0.4.1''\<rparr>,
      [npm_view_version ''preview'', git_tag_l ''v*-preview*'', gh_release_view ''v0.5.0-preview.2'',
       npm_view_version ''latest'', git_tag_l ''v[0-9].[0-9].[0-9]'', gh_release_view ''v0.4.1''])"
    unfolding getStableVersion_override
      [where args = "[''stable_version_override'' \<mapsto> AString ''v1.2.3'']" and tr = "[]",
        OF a _ example_preview, simplified]
    using 2 by (simp add: example_latest replace_leading_v_def)
  with 1 show ?thesis by simp
qed

text \<open>
  C8, amended. For an override given as a non-empty string \<open>s\<close>, once the channel
  validation that precedes the check has passed (preview for \<open>stable\<close>, nightly for
  \<open>preview\<close>): \<open>s\<close> without one leading \<open>v\<close> must be of the form \<open>X.Y.Z\<close>
  (\<open>stable_version_override\<close>), respectively \<open>X.Y.Z-preview.N\<close>
  (\<open>preview_version_override\<close>), each letter a non-empty run of decimal digits;
  otherwise the call throws \<open>Invalid <name>: <value>. Must be in <format> format.\<close>
  with \<open>value\<close> the override without that leading \<open>v\<close>, and issues no further query.
  When the form is right and the second validation passes, the override without the
  leading \<open>v\<close> is the \<open>releaseVersion\<close>.
\<close>

theorem override_format_checked:
  assumes "s \<noteq> []" and "version = replace_leading_v s"
  shows "(args ''stable_version_override'' = Some (AString s) \<longrightarrow>
            getAndVerifyTags w ''preview'' ''v*-preview*'' tr = (Inr r1, tr1) \<longrightarrow>
            (\<not> matches_XYZ version \<longrightarrow>
               getStableVersion w args tr =
                 (Inl (Error (''Invalid stable_version_override: '' @ version @
                              ''. Must be in X.Y.Z format.'')), tr1)) \<and>
            (matches_XYZ version \<longrightarrow>
               (\<forall>r2 tr2. getAndVerifyTags w ''latest'' ''v[0-9].[0-9].[0-9]'' tr1 = (Inr r2, tr2) \<longrightarrow>
                  getStableVersion w args tr =
                    (Inr \<lparr>releaseVersion = version, npmTag = ''latest'',
                           previousReleaseTag = latestTag r2\<rparr>, tr2)))) \<and>
         (args ''preview_version_override'' = Some (AString s) \<longrightarrow>
            getAndVerifyTags w ''nightly'' ''v*-nightly*'' tr = (Inr r1, tr1) \<longrightarrow>
            (\<not> matches_XYZ_preview_N version \<longrightarrow>
               getPreviewVersion w args tr =
                 (Inl (Error (''Invalid preview_version_override: '' @ version @
                              ''. Must be in X.Y.Z-preview.N format.'')), tr1)) \<and>
            (matches_XYZ_preview_N version \<longrightarrow>
               (\<forall>r2 tr2. getAndVerifyTags w ''preview'' ''v*-preview*'' tr1 = (Inr r2, tr2) \<longrightarrow>
                  getPreviewVersion w args tr =
                    (Inr \<lparr>releaseVersion = version, npmTag = ''preview'',
                           previousReleaseTag = latestTag r2\<rparr>, tr2)))) \<and>
         (matches_XYZ version \<longleftrightarrow>
            (\<exists>a b c. version = a @ ''.'' @ b @ ''.'' @ c \<and>
               a \<noteq> [] \<and> list_all isDigit a \<and> b \<noteq> [] \<and> list_all isDigit b \<and>
               c \<noteq> [] \<and> list_all isDigit c)) \<and>
         (matches_XYZ_preview_N version \<longleftrightarrow>
            (\<exists>a b c d. version = a @ ''.'' @ b @ ''.'' @ c @ ''-preview.'' @ d \<and>
               a \<noteq> [] \<and> list_all isDigit a \<and> b \<noteq> [] \<and> list_all isDigit b \<and>
               c \<noteq> [] \<and> list_all isDigit c \<and> d \<noteq> [] \<and> list_all isDigit d))"
proof (intro conjI impI)
  assume a: "args ''stable_version_override'' = Some (AString s)"
    and v: "getAndVerifyTags w ''preview'' ''v*-preview*'' tr = (Inr r1, tr1)"
  note eq = getStableVersion_override [where args = args, OF a assms(1) v]
  show "getStableVersion w args tr =
          (Inl (Error (''Invalid stable_version_override: '' @ version @
                       ''. Must be in X.Y.Z format.'')), tr1)"
    if "\<not> matches_XYZ version"
    using that eq assms(2) by simp
  show "\<forall>r2 tr2. getAndVerifyTags w ''latest'' ''v[0-9].[0-9].[0-9]'' tr1 = (Inr r2, tr2) \<longrightarrow>
          getStableVersion w args tr =
            (Inr \<lparr>releaseVersion = version, npmTag = ''latest'',
                   previousReleaseTag = latestTag r2\<rparr>, tr2)"
    if "matches_XYZ version"
    using that eq assms(2) by simp
next
  assume a: "args ''preview_version_override'' = Some (AString s)"
    and v: "getAndVerifyTags w ''nightly'' ''v*-nightly*'' tr = (Inr r1, tr1)"
  note eq = getPreviewVersion_override [where args = args, OF a assms(1) v]
  show "getPreviewVersion w args tr =
          (Inl (Error (''Invalid preview_version_override: '' @ version @
                       ''. Must be in X.Y.Z-preview.N format.'')), tr1)"
    if "\<not> matches_XYZ_preview_N version"
    using that eq assms(2) by simp
  show "\<forall>r2 tr2. getAndVerifyTags w ''preview'' ''v*-preview*'' tr1 = (Inr r2, tr2) \<longrightarrow>
          getPreviewVersion w args tr =
            (Inr \<lparr>releaseVersion = version, npmTag = ''preview'',
                   previousReleaseTag = latestTag r2\<rparr>, tr2)"
    if "matches_XYZ_preview_N version"
    using that eq assms(2) by simp
next
  show "matches_XYZ version \<longleftrightarrow>
            (\<exists>a b c. version = a @ ''.'' @ b @ ''.'' @ c \<and>
               a \<noteq> [] \<and> list_all isDigit a \<and> b \<noteq> [] \<and> list_all isDigit b \<and>
               c \<noteq> [] \<and> list_all isDigit c)"
    by (rule matches_XYZ_iff)
  show "matches_XYZ_preview_N version \<longleftrightarrow>
            (\<exists>a b c d. version = a @ ''.'' @ b @ ''.'' @ c @ ''-preview.'' @ d \<and>
               a \<noteq> [] \<and> list_all isDigit a \<and> b \<noteq> [] \<and> list_all isDigit b \<and>
               c \<noteq> [] \<and> list_all isDigit c \<and> d \<noteq> [] \<and> list_all isDigit d)"
    by (rule matches_XYZ_preview_N_iff)
qed

text \<open>
  The override \<open>1.2.3-beta\<close> is refused for \<open>X.Y.Z\<close>; \<open>0.7.0-preview\<close> is refused and
  \<open>v0.7.0-preview.1\<close> accepted for \<open>X.Y.Z-preview.N\<close>.
\<close>

theorem override_format_checked_witness:
  "getStableVersion example_world [''stable_version_override'' \<mapsto> AString ''1.2.3-beta''] [] =
     (Inl (Error ''Invalid stable_version_override: 1.2.3-beta. Must be in X.Y.Z format.''),
      [npm_view_version ''preview'', git_tag_l ''v*-preview*'', gh_release_view ''v0.5.0-preview.2'']) \<and>
   getPreviewVersion example_world [''preview_version_override'' \<mapsto> AString ''0.7.0-preview''] [] =
     (Inl (Error ''Invalid preview_version_override: 0.7.0-preview. Must be in X.Y.Z-preview.N format.''),
      [npm_view_version ''nightly'', git_tag_l ''v*-nightly*'',
       gh_release_view ''v0.6.0-nightly.20250910.a31830a3'']) \<and>
   getPreviewVersion example_world [''preview_version_override'' \<mapsto> AString ''v0.7.0-preview.1''] [] =
     (Inr \<lparr>releaseVersion = ''0.7.0-preview.1'', npmTag = ''preview'',
            previousReleaseTag = ''v0.5.0-preview.2''\<rparr>,
      [npm_view_version ''nightly'', git_tag_l ''v*-nightly*'',
       gh_release_view ''v0.6.0-nightly.20250910.a31830a3'',
       npm_view_version ''preview'', git_tag_l ''v*-preview*'', gh_release_view ''v0.5.0-preview.2''])"
proof -
  have m1: "\<not> matches_XYZ ''1.2.3-beta''" by (simp add: matches_XYZ_def isDigit_def)
  have m2: "\<not> matches_XYZ_preview_N ''0.7.0-preview''" by (simp add: matches_XYZ_preview_N_def)
  have m3: "matches_XYZ_preview_N ''0.7.0-preview.1''"
    by (simp add: matches_XYZ_preview_N_def isDigit_def)
  have r: "replace_leading_v ''1.2.3-beta'' = ''1.2.3-beta''"
    "replace_leading_v ''0.7.0-preview'' = ''0.7.0-preview''"
    "replace_leading_v ''v0.7.0-preview.1'' = ''0.7.0-preview.1''"
    by (simp_all add: replace_leading_v_def)
  have 1: "getStableVersion example_world [''stable_version_override'' \<mapsto> AString ''1.2.3-beta''] [] =
     (Inl (Error ''Invalid stable_version_override: 1.2.3-beta. Must be in X.Y.Z format.''),
      [npm_view_version ''preview'', git_tag_l ''v*-preview*'', gh_release_view ''v0.5.0-preview.2''])"
    using override_format_checked
      [where s = "''1.2.3-beta''" and args = "[''stable_version_override'' \<mapsto> AString ''1.2.3-beta'']"
         and w = example_world and tr = "[]", OF _ refl] m1
    by (simp add: r example_preview)
  have 2: "getPreviewVersion example_world [''preview_version_override'' \<mapsto> AString ''0.7.0-preview''] [] =
     (Inl (Error ''Invalid preview_version_override: 0.7.0-preview. Must be in X.Y.Z-preview.N format.''),
      [npm_view_version ''nightly'', git_tag_l ''v*-nightly*'',
       gh_release_view ''v0.6.0-nightly.20250910.a31830a3''])"
    using override_format_checked
      [where s = "''0.7.0-preview''" and args = "[''preview_version_override'' \<mapsto> AString ''0.7.0-preview'']"
         and w = example_world and tr = "[]", OF _ refl] m2
    by (simp add: r example_nightly)
  have 3: "getPreviewVersion example_world [''preview_version_override'' \<mapsto> AString ''v0.7.0-preview.1''] [] =
     (Inr \<lparr>releaseVersion = ''0.7.0-preview.1'', npmTag = ''preview'',
            previousReleaseTag = ''v0.5.0-preview.2''\<rparr>,
      [npm_view_version ''nightly'', git_tag_l ''v*-nightly*'',
       gh_release_view ''v0.6.0-nightly.20250910.a31830a3'',
       npm_view_version ''preview'', git_tag_l ''v*-preview*'', gh_release_view ''v0.5.0-preview.2''])"
    using override_format_checked
      [where s = "''v0.7.0-preview.1''"
         and args = "[''preview_version_override'' \<mapsto> AString ''v0.7.0-preview.1'']"
         and w = example_world and tr = "[]", OF _ refl] m3
    by (simp add: r example_nightly example_preview)
  from 1 2 3 show ?thesis by simp
qed

subsection \<open>C9: failing before any query\<close>

text \<open>
  C9. With \<open>type\<close> the release type the entry point switches on
  (\<open>args.type || 'nightly'\<close>): when it is none of \<open>nightly\<close>, \<open>stable\<close>, \<open>preview\<close> and
  \<open>patch\<close>, the call throws \<open>Unknown release type\<close>; when it is \<open>patch\<close> and \<open>patch-from\<close>
  is missing, empty or neither \<open>stable\<close> nor \<open>preview\<close>, the call throws the error that
  asks for \<open>--patch-from\<close>. In both cases the commands issued are the ones issued
  before the call: no source is queried.
\<close>

theorem getVersion_fails_before_any_query:
  assumes "args = getArgs w ++ options"
  shows "(release_type args \<notin> {AString ''nightly'', AString ''stable'', AString ''preview'',
                                AString ''patch''} \<longrightarrow>
            getVersion w options tr =
              (Inl (Error (''Unknown release type: '' @ argval_toString (release_type args))), tr)) \<and>
         (release_type args = AString ''patch'' \<longrightarrow>
            (\<not> truthy (args ''patch-from'') \<or>
             (args ''patch-from'' \<noteq> Some (AString ''stable'') \<and>
              args ''patch-from'' \<noteq> Some (AString ''preview''))) \<longrightarrow>
            getVersion w options tr =
              (Inl (Error ''Patch type must be specified with --patch-from=stable or --patch-from=preview''),
               tr))"
  using assms
  by (auto simp add: getVersion_def getPatchVersion_def io_bind_def io_throw_def Let_def)

theorem getVersion_fails_before_any_query_witness:
  "getVersion example_world [''type'' \<mapsto> AString ''beta''] [] =
     (Inl (Error ''Unknown release type: beta''), []) \<and>
   getVersion (example_world\<lparr>argv := [''node'', ''get-release-version.js'', ''--type'']\<rparr>) Map.empty [] =
     (Inl (Error ''Unknown release type: true''), []) \<and>
   getVersion example_world [''type'' \<mapsto> AString ''patch''] [] =
     (Inl (Error ''Patch type must be specified with --patch-from=stable or --patch-from=preview''), []) \<and>
   getVersion (example_world\<lparr>argv := [''node'', ''get-release-version.js'', ''--type=patch'',
                                        ''--patch-from=nightly'']\<rparr>) Map.empty [] =
     (Inl (Error ''Patch type must be specified with --patch-from=stable or --patch-from=preview''), [])"
proof -
  let ?w1 = "example_world\<lparr>argv := [''node'', ''get-release-version.js'', ''--type'']\<rparr>"
  let ?w2 = "example_world\<lparr>argv := [''node'', ''get-release-version.js'', ''--type=patch'',
                                       ''--patch-from=nightly'']\<rparr>"
  have a0: "getArgs example_world = Map.empty"
    by (simp add: getArgs_def example_world_def)
  have a1: "getArgs ?w1 = [''type'' \<mapsto> ATrue]"
    by (simp add: getArgs_def js_startsWith_def)
  have a2: "getArgs ?w2 = [''type'' \<mapsto> AString ''patch'', ''patch-from'' \<mapsto> AString ''nightly'']"
    by (simp add: getArgs_def js_startsWith_def)
  have 1: "getVersion example_world [''type'' \<mapsto> AString ''beta''] [] =
             (Inl (Error ''Unknown release type: beta''), [])"
    using getVersion_fails_before_any_query
        [OF refl, where w = example_world and options = "[''type'' \<mapsto> AString ''beta'']" and tr = "[]"]
    by (simp add: a0 release_type_def argval_toString_def)
  have 2: "getVersion ?w1 Map.empty [] = (Inl (Error ''Unknown release type: true''), [])"
    using getVersion_fails_before_any_query [OF refl, where w = ?w1 and options = Map.empty and tr = "[]"]
    by (simp add: a1 release_type_def argval_toString_def)
  have 3: "getVersion example_world [''type'' \<mapsto> AString ''patch''] [] =
     (Inl (Error ''Patch type must be specified with --patch-from=stable or --patch-from=preview''), [])"
    using getVersion_fails_before_any_query
        [OF refl, where w = example_world and options = "[''type'' \<mapsto> AString ''patch'']" and tr = "[]"]
    by (simp add: a0 release_type_def truthy_def)
  have 4: "getVersion ?w2 Map.empty [] =
     (Inl (Error ''Patch type must be specified with --patch-from=stable or --patch-from=preview''), [])"
    using getVersion_fails_before_any_query [OF refl, where w = ?w2 and options = Map.empty and tr = "[]"]
    by (simp add: a2 release_type_def truthy_def)
  from 1 2 3 4 show ?thesis by simp
qed

subsection \<open>C10: the preview type validates the preview channel as well\<close>

lemma preview_drifted_nightly:
  "getAndVerifyTags preview_drifted_world ''nightly'' ''v*-nightly*'' tr =
     (Inr \<lparr>latestVersion = ''0.6.0-nightly.20250910.a31830a3'',
            latestTag = ''v0.6.0-nightly.20250910.a31830a3''\<rparr>,
      tr @ [npm_view_version ''nightly'', git_tag_l ''v*-nightly*'',
            gh_release_view ''v0.6.0-nightly.20250910.a31830a3''])"
  by (simp add: preview_drifted_world_def query_defs world_defs command_defs semver_defs)

lemma preview_drifted_npm:
  "getVersionFromNPM preview_drifted_world ''preview'' tr =
     (Inr ''0.5.0-preview.2'', tr @ [npm_view_version ''preview''])"
  by (simp add: preview_drifted_world_def query_defs world_defs command_defs semver_defs)

lemma preview_drifted_tag:
  "getLatestTag preview_drifted_world ''v*-preview*'' tr =
     (Inr ''v0.5.0-preview.3'', tr @ [git_tag_l ''v*-preview*''])"
  by (simp add: preview_drifted_world_def query_defs world_defs command_defs semver_defs)

lemma preview_drifted_preview:
  "getAndVerifyTags preview_drifted_world ''preview'' ''v*-preview*'' tr =
     (Inl (Error ''Discrepancy found! NPM preview tag (0.5.0-preview.2) does not match latest git preview tag (v0.5.0-preview.3).''),
      tr @ [npm_view_version ''preview'', git_tag_l ''v*-preview*''])"
  using getAndVerifyTags_eq [OF preview_drifted_npm preview_drifted_tag] by simp

lemma preview_unreleased_nightly:
  "getAndVerifyTags preview_unreleased_world ''nightly'' ''v*-nightly*'' tr =
     (Inr \<lparr>latestVersion = ''0.6.0-nightly.20250910.a31830a3'',
            latestTag = ''v0.6.0-nightly.20250910.a31830a3''\<rparr>,
      tr @ [npm_view_version ''nightly'', git_tag_l ''v*-nightly*'',
            gh_release_view ''v0.6.0-nightly.20250910.a31830a3''])"
  by (simp add: preview_unreleased_world_def query_defs world_defs command_defs semver_defs)

lemma preview_unreleased_npm:
  "getVersionFromNPM preview_unreleased_world ''preview'' tr =
     (Inr ''0.5.0-preview.2'', tr @ [npm_view_version ''preview''])"
  by (simp add: preview_unreleased_world_def query_defs world_defs command_defs semver_defs)

lemma preview_unreleased_tag:
  "getLatestTag preview_unreleased_world ''v*-preview*'' tr =
     (Inr ''v0.5.0-preview.2'', tr @ [git_tag_l ''v*-preview*''])"
  by (simp add: preview_unreleased_world_def query_defs world_defs command_defs semver_defs)

lemma preview_unreleased_release:
  "run preview_unreleased_world (gh_release_view ''v0.5.0-preview.2'') = Inl ''release not found''"
  by (simp add: preview_unreleased_world_def)

text \<open>
  C10 as stated fails for an override that is not of the form \<open>X.Y.Z-preview.N\<close>. With
  the nightly channel consistent, the preview registry at \<open>0.5.0-preview.2\<close>, the
  preview tags at \<open>v0.5.0-preview.3\<close> and the override \<open>4.5.6-preview\<close>, the call fails
  with the format error of the override and has issued the three queries of the
  nightly channel only: the preview channel, whose validation at that point would throw
  its discrepancy error, is never asked.
\<close>

theorem getPreviewVersion_override_first_counterexample:
  "getPreviewVersion preview_drifted_world
       [''preview_version_override'' \<mapsto> AString ''4.5.6-preview''] [] =
     (Inl (Error ''Invalid preview_version_override: 4.5.6-preview. Must be in X.Y.Z-preview.N format.''),
      [npm_view_version ''nightly'', git_tag_l ''v*-nightly*'',
       gh_release_view ''v0.6.0-nightly.20250910.a31830a3'']) \<and>
   getAndVerifyTags preview_drifted_world ''preview'' ''v*-preview*''
       [npm_view_version ''nightly'', git_tag_l ''v*-nightly*'',
        gh_release_view ''v0.6.0-nightly.20250910.a31830a3''] =
     (Inl (Error ''Discrepancy found! NPM preview tag (0.5.0-preview.2) does not match latest git preview tag (v0.5.0-preview.3).''),
      [npm_view_version ''nightly'', git_tag_l ''v*-nightly*'',
       gh_release_view ''v0.6.0-nightly.20250910.a31830a3'',
       npm_view_version ''preview'', git_tag_l ''v*-preview*''])"
proof -
  let ?args = "[''preview_version_override'' \<mapsto> AString ''4.5.6-preview'']"
  have m: "\<not> matches_XYZ_preview_N (replace_leading_v ''4.5.6-preview'')"
    by (simp add: matches_XYZ_preview_N_def replace_leading_v_def)
  have o: "?args ''preview_version_override'' = Some (AString ''4.5.6-preview'')" by simp
  have 1: "getPreviewVersion preview_drifted_world ?args [] =
     (Inl (Error ''Invalid preview_version_override: 4.5.6-preview. Must be in X.Y.Z-preview.N format.''),
      [npm_view_version ''nightly'', git_tag_l ''v*-nightly*'',
       gh_release_view ''v0.6.0-nightly.20250910.a31830a3''])"
    using getPreviewVersion_override [where args = ?args and tr = "[]", OF o _ preview_drifted_nightly] m
    by (simp add: replace_leading_v_def)
  from 1 show ?thesis by (simp add: preview_drifted_preview)
qed

text \<open>
  C10, amended. Once the nightly channel has validated:

  \<^item> with no override, or an override that is of the form \<open>X.Y.Z-preview.N\<close> once a
    leading \<open>v\<close> is removed, \<open>getPreviewVersion\<close> runs the validation of the preview
    channel (dist-tag \<open>preview\<close>, pattern \<open>v*-preview*\<close>): when that validation throws,
    the call throws the same error; when it returns, its tag is the
    \<open>previousReleaseTag\<close>. So a registry version and a latest tag of the preview channel
    that differ make the call throw the discrepancy error naming both; and when they
    agree, a release query that fails, or that answers another name, makes the call
    throw the error of the missing release;

  \<^item> with an override that is a string of another form, the call throws the format
    error and issues no query of the preview channel;

  \<^item> with an override that is no string (the bare flag), the call throws a
    \<open>TypeError\<close> and issues no query of the preview channel.
\<close>

theorem getPreviewVersion_validates_preview:
  assumes "getAndVerifyTags w ''nightly'' ''v*-nightly*'' tr = (Inr r1, tr1)"
  shows "(\<not> truthy (args ''preview_version_override'') \<or>
          (\<exists>s. args ''preview_version_override'' = Some (AString s) \<and> s \<noteq> [] \<and>
               matches_XYZ_preview_N (replace_leading_v s)) \<longrightarrow>
            (\<forall>e tr2. getAndVerifyTags w ''preview'' ''v*-preview*'' tr1 = (Inl e, tr2) \<longrightarrow>
               getPreviewVersion w args tr = (Inl e, tr2)) \<and>
            (\<forall>r2 tr2. getAndVerifyTags w ''preview'' ''v*-preview*'' tr1 = (Inr r2, tr2) \<longrightarrow>
               (\<exists>version. getPreviewVersion w args tr =
                  (Inr \<lparr>releaseVersion = version, npmTag = ''preview'',
                         previousReleaseTag = latestTag r2\<rparr>, tr2))) \<and>
            (\<forall>version tr' tag tr2.
               getVersionFromNPM w ''preview'' tr1 = (Inr version, tr') \<longrightarrow>
               getLatestTag w ''v*-preview*'' tr' = (Inr tag, tr2) \<longrightarrow>
               ''v'' @ version \<noteq> tag \<longrightarrow>
               getPreviewVersion w args tr =
                 (Inl (Error (''Discrepancy found! NPM preview tag ('' @ version @
                              '') does not match latest git preview tag ('' @ tag @ '').'')), tr2)) \<and>
            (\<forall>version tr' tag tr2 m.
               getVersionFromNPM w ''preview'' tr1 = (Inr version, tr') \<longrightarrow>
               getLatestTag w ''v*-preview*'' tr' = (Inr tag, tr2) \<longrightarrow>
               ''v'' @ version = tag \<longrightarrow>
               run w (gh_release_view tag) = Inl m \<longrightarrow>
               getPreviewVersion w args tr =
                 (Inl (Error (''Discrepancy found! Failed to verify GitHub release for '' @ tag @
                              ''. Error: '' @ m)), tr2 @ [gh_release_view tag])) \<and>
            (\<forall>version tr' tag tr2 out.
               getVersionFromNPM w ''preview'' tr1 = (Inr version, tr') \<longrightarrow>
               getLatestTag w ''v*-preview*'' tr' = (Inr tag, tr2) \<longrightarrow>
               ''v'' @ version = tag \<longrightarrow>
               run w (gh_release_view tag) = Inr out \<longrightarrow>
               js_trim out \<noteq> tag \<longrightarrow>
               getPreviewVersion w args tr =
                 (Inl (Error (''Discrepancy found! Failed to verify GitHub release for '' @ tag @
                              ''. Error: '' @ ''Discrepancy found! NPM version '' @ tag @
                              '' is missing a corresponding GitHub release.'')),
                  tr2 @ [gh_release_view tag]))) \<and>
         (\<forall>s. args ''preview_version_override'' = Some (AString s) \<longrightarrow> s \<noteq> [] \<longrightarrow>
              \<not> matches_XYZ_preview_N (replace_leading_v s) \<longrightarrow>
              getPreviewVersion w args tr =
                (Inl (Error (''Invalid preview_version_override: '' @ replace_leading_v s @
                             ''. Must be in X.Y.Z-preview.N format.'')), tr1)) \<and>
         (args ''preview_version_override'' = Some ATrue \<longrightarrow>
            getPreviewVersion w args tr =
              (Inl (TypeError ''args.preview_version_override.replace is not a function''), tr1))"
proof (intro conjI impI allI)
  assume wf: "\<not> truthy (args ''preview_version_override'') \<or>
          (\<exists>s. args ''preview_version_override'' = Some (AString s) \<and> s \<noteq> [] \<and>
               matches_XYZ_preview_N (replace_leading_v s))"
  have "\<exists>version. getPreviewVersion w args tr =
              (case getAndVerifyTags w ''preview'' ''v*-preview*'' tr1 of
                 (Inl e, tr2) \<Rightarrow> (Inl e, tr2)
               | (Inr r2, tr2) \<Rightarrow>
                   (Inr \<lparr>releaseVersion = version, npmTag = ''preview'',
                          previousReleaseTag = latestTag r2\<rparr>, tr2))"
  proof (cases "truthy (args ''preview_version_override'')")
    case False
    show ?thesis
      using getPreviewVersion_no_override [where args = args, OF False assms] by blast
  next
    case True
    then obtain s where s: "args ''preview_version_override'' = Some (AString s)" "s \<noteq> []"
      "matches_XYZ_preview_N (replace_leading_v s)"
      using wf by blast
    have "getPreviewVersion w args tr =
              (case getAndVerifyTags w ''preview'' ''v*-preview*'' tr1 of
                 (Inl e, tr2) \<Rightarrow> (Inl e, tr2)
               | (Inr r2, tr2) \<Rightarrow>
                   (Inr \<lparr>releaseVersion = replace_leading_v s, npmTag = ''preview'',
                          previousReleaseTag = latestTag r2\<rparr>, tr2))"
      using getPreviewVersion_override [where args = args, OF s(1,2) assms] s(3) by simp
    then show ?thesis by blast
  qed
  then obtain version0 where eq: "getPreviewVersion w args tr =
              (case getAndVerifyTags w ''preview'' ''v*-preview*'' tr1 of
                 (Inl e, tr2) \<Rightarrow> (Inl e, tr2)
               | (Inr r2, tr2) \<Rightarrow>
                   (Inr \<lparr>releaseVersion = version0, npmTag = ''preview'',
                          previousReleaseTag = latestTag r2\<rparr>, tr2))"
    by blast
  {
    fix e tr2
    assume "getAndVerifyTags w ''preview'' ''v*-preview*'' tr1 = (Inl e, tr2)"
    then show "getPreviewVersion w args tr = (Inl e, tr2)" by (simp add: eq)
  }
  {
    fix r2 tr2
    assume "getAndVerifyTags w ''preview'' ''v*-preview*'' tr1 = (Inr r2, tr2)"
    then show "\<exists>version. getPreviewVersion w args tr =
                 (Inr \<lparr>releaseVersion = version, npmTag = ''preview'',
                        previousReleaseTag = latestTag r2\<rparr>, tr2)"
      by (simp add: eq)
  }
  {
    fix version tr' tag tr2
    assume n: "getVersionFromNPM w ''preview'' tr1 = (Inr version, tr')"
      and t: "getLatestTag w ''v*-preview*'' tr' = (Inr tag, tr2)"
      and d: "''v'' @ version \<noteq> tag"
    show "getPreviewVersion w args tr =
            (Inl (Error (''Discrepancy found! NPM preview tag ('' @ version @
                         '') does not match latest git preview tag ('' @ tag @ '').'')), tr2)"
      using getAndVerifyTags_eq [OF n t] d by (simp add: eq)
  }
  {
    fix version tr' tag tr2 m
    assume n: "getVersionFromNPM w ''preview'' tr1 = (Inr version, tr')"
      and t: "getLatestTag w ''v*-preview*'' tr' = (Inr tag, tr2)"
      and d: "''v'' @ version = tag"
      and g: "run w (gh_release_view tag) = Inl m"
    have "getAndVerifyTags w ''preview'' ''v*-preview*'' tr1 =
            (Inl (Error (''Discrepancy found! Failed to verify GitHub release for '' @ tag @
                         ''. Error: '' @ m)), tr2 @ [gh_release_view tag])"
      using d g unfolding getAndVerifyTags_eq [OF n t] verifyGitHubReleaseExists_eq by simp
    then show "getPreviewVersion w args tr =
            (Inl (Error (''Discrepancy found! Failed to verify GitHub release for '' @ tag @
                         ''. Error: '' @ m)), tr2 @ [gh_release_view tag])"
      by (simp add: eq)
  }
  {
    fix version tr' tag tr2 out
    assume n: "getVersionFromNPM w ''preview'' tr1 = (Inr version, tr')"
      and t: "getLatestTag w ''v*-preview*'' tr' = (Inr tag, tr2)"
      and d: "''v'' @ version = tag"
      and g: "run w (gh_release_view tag) = Inr out" and o: "js_trim out \<noteq> tag"
    have "getAndVerifyTags w ''preview'' ''v*-preview*'' tr1 =
            (Inl (Error (''Discrepancy found! Failed to verify GitHub release for '' @ tag @
                         ''. Error: '' @ ''Discrepancy found! NPM version '' @ tag @
                         '' is missing a corresponding GitHub release.'')),
             tr2 @ [gh_release_view tag])"
      using d g o unfolding getAndVerifyTags_eq [OF n t] verifyGitHubReleaseExists_eq by simp
    then show "getPreviewVersion w args tr =
            (Inl (Error (''Discrepancy found! Failed to verify GitHub release for '' @ tag @
                         ''. Error: '' @ ''Discrepancy found! NPM version '' @ tag @
                         '' is missing a corresponding GitHub release.'')),
             tr2 @ [gh_release_view tag])"
      by (simp add: eq)
  }
next
  fix s
  assume "args ''preview_version_override'' = Some (AString s)" and "s \<noteq> []"
    and "\<not> matches_XYZ_preview_N (replace_leading_v s)"
  then show "getPreviewVersion w args tr =
                (Inl (Error (''Invalid preview_version_override: '' @ replace_leading_v s @
                             ''. Must be in X.Y.Z-preview.N format.'')), tr1)"
    using getPreviewVersion_override [where args = args, OF _ _ assms] by simp
next
  assume "args ''preview_version_override'' = Some ATrue"
  then show "getPreviewVersion w args tr =
              (Inl (TypeError ''args.preview_version_override.replace is not a function''), tr1)"
    using assms
    by (simp add: getPreviewVersion_def io_bind_def io_throw_def truthy_def override_replace_v_def)
qed

text \<open>
  The nightly channel consistent, the preview registry at \<open>0.5.0-preview.2\<close> and the
  preview tags at \<open>v0.5.0-preview.3\<close>: the call fails with the discrepancy error of the
  preview channel with and without a well-formed override, with the format error for
  the override \<open>4.5.6-preview\<close>, and with a \<open>TypeError\<close> for the bare flag. With the
  preview channel at \<open>0.5.0-preview.2\<close> in registry and tags and no release
  \<open>v0.5.0-preview.2\<close>, it fails with the error of the missing release. In the consistent
  repository the override is released after \<open>v0.5.0-preview.2\<close>.
\<close>

theorem getPreviewVersion_validates_preview_witness:
  "getPreviewVersion preview_drifted_world [''preview_version_override'' \<mapsto> AString ''0.6.0-preview.0''] [] =
     (Inl (Error ''Discrepancy found! NPM preview tag (0.5.0-preview.2) does not match latest git preview tag (v0.5.0-preview.3).''),
      [npm_view_version ''nightly'', git_tag_l ''v*-nightly*'',
       gh_release_view ''v0.6.0-nightly.20250910.a31830a3'',
       npm_view_version ''preview'', git_tag_l ''v*-preview*'']) \<and>
   getPreviewVersion preview_drifted_world Map.empty [] =
     (Inl (Error ''Discrepancy found! NPM preview tag (0.5.0-preview.2) does not match latest git preview tag (v0.5.0-preview.3).''),
      [npm_view_version ''nightly'', git_tag_l ''v*-nightly*'',
       gh_release_view ''v0.6.0-nightly.20250910.a31830a3'',
       npm_view_version ''preview'', git_tag_l ''v*-preview*'']) \<and>
   getPreviewVersion preview_unreleased_world [''preview_version_override'' \<mapsto> AString ''0.6.0-preview.0''] [] =
     (Inl (Error ''Discrepancy found! Failed to verify GitHub release for v0.5.0-preview.2. Error: release not found''),
      [npm_view_version ''nightly'', git_tag_l ''v*-nightly*'',
       gh_release_view ''v0.6.0-nightly.20250910.a31830a3'',
       npm_view_version ''preview'', git_tag_l ''v*-preview*'',
       gh_release_view ''v0.5.0-preview.2'']) \<and>
   (\<exists>version.
      getPreviewVersion example_world [''preview_version_override'' \<mapsto> AString ''0.6.0-preview.0''] [] =
        (Inr \<lparr>releaseVersion = version, npmTag = ''preview'',
               previousReleaseTag = ''v0.5.0-preview.2''\<rparr>,
         [npm_view_version ''nightly'', git_tag_l ''v*-nightly*'',
          gh_release_view ''v0.6.0-nightly.20250910.a31830a3'',
          npm_view_version ''preview'', git_tag_l ''v*-preview*'',
          gh_release_view ''v0.5.0-preview.2''])) \<and>
   getPreviewVersion preview_drifted_world [''preview_version_override'' \<mapsto> AString ''4.5.6-preview''] [] =
     (Inl (Error ''Invalid preview_version_override: 4.5.6-preview. Must be in X.Y.Z-preview.N format.''),
      [npm_view_version ''nightly'', git_tag_l ''v*-nightly*'',
       gh_release_view ''v0.6.0-nightly.20250910.a31830a3'']) \<and>
   getPreviewVersion preview_drifted_world [''preview_version_override'' \<mapsto> ATrue] [] =
     (Inl (TypeError ''args.preview_version_override.replace is not a function''),
      [npm_view_version ''nightly'', git_tag_l ''v*-nightly*'',
       gh_release_view ''v0.6.0-nightly.20250910.a31830a3''])"
proof -
  let ?args = "[''preview_version_override'' \<mapsto> AString ''0.6.0-preview.0'']"
  let ?bad = "[''preview_version_override'' \<mapsto> AString ''4.5.6-preview'']"
  let ?flag = "[''preview_version_override'' \<mapsto> ATrue]"
  have m: "matches_XYZ_preview_N (replace_leading_v ''0.6.0-preview.0'')"
    by (simp add: matches_XYZ_preview_N_def isDigit_def replace_leading_v_def)
  have o: "\<not> truthy (?args ''preview_version_override'') \<or>
         (\<exists>s. ?args ''preview_version_override'' = Some (AString s) \<and> s \<noteq> [] \<and>
              matches_XYZ_preview_N (replace_leading_v s))"
    using m by simp
  have n: "\<not> truthy (Map.empty ''preview_version_override'') \<or>
         (\<exists>s. Map.empty ''preview_version_override'' = Some (AString s) \<and> s \<noteq> [] \<and>
              matches_XYZ_preview_N (replace_leading_v s))"
    by (simp add: truthy_def)
  have b: "\<not> matches_XYZ_preview_N (replace_leading_v ''4.5.6-preview'')"
    by (simp add: matches_XYZ_preview_N_def replace_leading_v_def)
  have 1: "getPreviewVersion preview_drifted_world ?args [] =
     (Inl (Error ''Discrepancy found! NPM preview tag (0.5.0-preview.2) does not match latest git preview tag (v0.5.0-preview.3).''),
      [npm_view_version ''nightly'', git_tag_l ''v*-nightly*'',
       gh_release_view ''v0.6.0-nightly.20250910.a31830a3'',
       npm_view_version ''preview'', git_tag_l ''v*-preview*''])"
    using getPreviewVersion_validates_preview
      [where args = ?args and tr = "[]", OF preview_drifted_nightly] o
    by (simp add: preview_drifted_npm preview_drifted_tag)
  have 2: "getPreviewVersion preview_drifted_world Map.empty [] =
     (Inl (Error ''Discrepancy found! NPM preview tag (0.5.0-preview.2) does not match latest git preview tag (v0.5.0-preview.3).''),
      [npm_view_version ''nightly'', git_tag_l ''v*-nightly*'',
       gh_release_view ''v0.6.0-nightly.20250910.a31830a3'',
       npm_view_version ''preview'', git_tag_l ''v*-preview*''])"
    using getPreviewVersion_validates_preview
      [where args = Map.empty and tr = "[]", OF preview_drifted_nightly] n
    by (simp add: preview_drifted_npm preview_drifted_tag)
  have 3: "getPreviewVersion preview_unreleased_world ?args [] =
     (Inl (Error ''Discrepancy found! Failed to verify GitHub release for v0.5.0-preview.2. Error: release not found''),
      [npm_view_version ''nightly'', git_tag_l ''v*-nightly*'',
       gh_release_view ''v0.6.0-nightly.20250910.a31830a3'',
       npm_view_version ''preview'', git_tag_l ''v*-preview*'',
       gh_release_view ''v0.5.0-preview.2''])"
    using getPreviewVersion_validates_preview
      [where args = ?args and tr = "[]", OF preview_unreleased_nightly] o
    by (simp add: preview_unreleased_npm preview_unreleased_tag preview_unreleased_release)
  have 4: "\<exists>version.
      getPreviewVersion example_world ?args [] =
        (Inr \<lparr>releaseVersion = version, npmTag = ''preview'',
               previousReleaseTag = ''v0.5.0-preview.2''\<rparr>,
         [npm_view_version ''nightly'', git_tag_l ''v*-nightly*'',
          gh_release_view ''v0.6.0-nightly.20250910.a31830a3'',
          npm_view_version ''preview'', git_tag_l ''v*-preview*'',
          gh_release_view ''v0.5.0-preview.2''])"
    using getPreviewVersion_validates_preview
      [where args = ?args and tr = "[]", OF example_nightly] o
    by (simp add: example_preview)
  have 5: "getPreviewVersion preview_drifted_world ?bad [] =
     (Inl (Error ''Invalid preview_version_override: 4.5.6-preview. Must be in X.Y.Z-preview.N format.''),
      [npm_view_version ''nightly'', git_tag_l ''v*-nightly*'',
       gh_release_view ''v0.6.0-nightly.20250910.a31830a3''])"
    using getPreviewVersion_validates_preview
      [where args = ?bad and tr = "[]", OF preview_drifted_nightly] b
    by (simp add: replace_leading_v_def)
  have 6: "getPreviewVersion preview_drifted_world ?flag [] =
     (Inl (TypeError ''args.preview_version_override.replace is not a function''),
      [npm_view_version ''nightly'', git_tag_l ''v*-nightly*'',
       gh_release_view ''v0.6.0-nightly.20250910.a31830a3''])"
    using getPreviewVersion_validates_preview
      [where args = ?flag and tr = "[]", OF preview_drifted_nightly]
    by simp
  from 1 2 3 4 5 6 show ?thesis by blast
qed

end
